theory Spec2Isabelle
  imports Main "HOL-Library.AList"
begin

section \<open>The autodelegate daemon: parsed JSON\<close>

text \<open>
  The daemon (\<^verbatim>\<open>bin/autodelegate-daemon.mjs\<close>) reads every task, agent definition and
  configuration from a JSON file. A parsed document is a \<open>jsval\<close>; an object keeps its
  properties in insertion order, as the language does, so an object is an association
  list and a property write is \<open>AList.update\<close> (an existing key keeps its place, a new
  one goes last). A property that is absent reads as \<open>None\<close> (\<^verbatim>\<open>undefined\<close>).

  Numbers are the whole numbers a task file carries (attempt counters, exit codes,
  millisecond clocks), with the language's arithmetic on them: a sum is the exact sum
  rounded to the nearest double (\<open>roundDouble\<close>). Fractions and the infinities are
  outside the model. Strings are lists of 8-bit characters.
\<close>

datatype jsval =
    JNull
  | JBool bool
  | JNum int
  | JStr string
  | JArr "jsval list"
  | JObj "(string \<times> jsval) list"

type_synonym jsobj = "(string \<times> jsval) list"

text \<open>Truthiness of a property read (\<^verbatim>\<open>if (task.agent)\<close>, \<^verbatim>\<open>!agent.name\<close>, \<^verbatim>\<open>a || b\<close>).\<close>

fun truthy :: "jsval option \<Rightarrow> bool" where
  "truthy None = False"
| "truthy (Some JNull) = False"
| "truthy (Some (JBool b)) = b"
| "truthy (Some (JNum n)) = (n \<noteq> 0)"
| "truthy (Some (JStr s)) = (s \<noteq> [])"
| "truthy (Some (JArr xs)) = True"
| "truthy (Some (JObj kvs)) = True"

text \<open>
  \<^verbatim>\<open>a === b\<close> for two values read from two different parsed documents (an agent file and
  a task file, an agent file and the configuration, two agent files): primitives are
  compared by value; an array or an object is a fresh reference in each document, so it
  is never identical to one of another document.
\<close>

fun strictEq :: "jsval \<Rightarrow> jsval \<Rightarrow> bool" where
  "strictEq JNull JNull = True"
| "strictEq (JBool a) (JBool b) = (a = b)"
| "strictEq (JNum a) (JNum b) = (a = b)"
| "strictEq (JStr a) (JStr b) = (a = b)"
| "strictEq _ _ = False"

text \<open>The properties of a parsed value that is not \<^verbatim>\<open>null\<close>: only an object has any
  of the names the daemon reads.\<close>

fun props :: "jsval \<Rightarrow> jsobj" where
  "props (JObj kvs) = kvs"
| "props _ = []"

subsection \<open>Agents\<close>

text \<open>
  An agent as \<open>loadAgents\<close> stores it: the parsed definition (\<open>source\<close>, the spread
  \<^verbatim>\<open>...agent\<close>) with \<open>promptMode\<close>, \<open>defaultArgs\<close> and \<open>useWorktree\<close> normalised.
\<close>

datatype prompt_mode = Stdin | Argument

record agent =
  name :: jsval
  command :: jsval
  promptMode :: prompt_mode
  defaultArgs :: "string list"
  useWorktree :: bool
  source :: jsobj

section \<open>The router: \<open>pickAgent\<close>\<close>

text \<open>
  \<open>pickAgent\<close> (lines 231-260) takes the properties of the task and of the configuration:
  \<open>processOneTask\<close> calls it only once the task has a prompt, so with an object, and the
  configuration is always one. \<open>firstRouted\<close> is the loop over \<^verbatim>\<open>config.routingOrder\<close>
  (lines 251-256).
\<close>

fun firstRouted :: "jsval list \<Rightarrow> agent list \<Rightarrow> agent option" where
  "firstRouted [] agents = None"
| "firstRouted (n # ns) agents =
     (case find (\<lambda>a. strictEq (name a) n) agents of
        Some found \<Rightarrow> Some found
      | None \<Rightarrow> firstRouted ns agents)"

definition pickAgent :: "jsobj \<Rightarrow> agent list \<Rightarrow> jsobj \<Rightarrow> agent option" where
  "pickAgent task agents config =
     (case agents of
        [] \<Rightarrow> None
      | first # _ \<Rightarrow>
          (case (if truthy (map_of task ''agent'')
                 then find (\<lambda>a. strictEq (name a) (the (map_of task ''agent''))) agents
                 else None) of
             Some named \<Rightarrow> Some named
           | None \<Rightarrow>
               (case (if truthy (map_of task ''tool'')
                      then find (\<lambda>a. strictEq (command a) (the (map_of task ''tool''))) agents
                      else None) of
                  Some byTool \<Rightarrow> Some byTool
                | None \<Rightarrow>
                    (case (case map_of config ''routingOrder'' of
                             Some (JArr names) \<Rightarrow> firstRouted names agents
                           | _ \<Rightarrow> None) of
                       Some found \<Rightarrow> Some found
                     | None \<Rightarrow> Some first))))"

subsection \<open>The routing rules as the specification words them\<close>

text \<open>
  The candidates of each rule in list order, the rules in priority order; the selected
  agent is the first candidate. In \<open>select_spec\<close> rules 1 and 2 apply to whatever value
  the task carries; in \<open>select_guarded\<close> they apply only to a truthy value, so an empty
  string (or \<^verbatim>\<open>0\<close>, \<^verbatim>\<open>false\<close>, \<^verbatim>\<open>null\<close>) states no preference.
\<close>

definition rule_matches :: "(agent \<Rightarrow> jsval) \<Rightarrow> jsval option \<Rightarrow> agent list \<Rightarrow> agent list" where
  "rule_matches field wanted agents =
     (case wanted of None \<Rightarrow> [] | Some v \<Rightarrow> filter (\<lambda>a. strictEq (field a) v) agents)"

definition routed_matches :: "jsobj \<Rightarrow> agent list \<Rightarrow> agent list" where
  "routed_matches config agents =
     (case map_of config ''routingOrder'' of
        Some (JArr names) \<Rightarrow> concat (map (\<lambda>n. filter (\<lambda>a. strictEq (name a) n) agents) names)
      | _ \<Rightarrow> [])"

definition first_of :: "'a list \<Rightarrow> 'a option" where
  "first_of xs = (case xs of [] \<Rightarrow> None | x # _ \<Rightarrow> Some x)"

definition select_spec :: "jsobj \<Rightarrow> agent list \<Rightarrow> jsobj \<Rightarrow> agent option" where
  "select_spec task agents config =
     first_of (rule_matches name (map_of task ''agent'') agents
               @ rule_matches command (map_of task ''tool'') agents
               @ routed_matches config agents
               @ agents)"

definition guarded :: "jsval option \<Rightarrow> jsval option" where
  "guarded v = (if truthy v then v else None)"

definition select_guarded :: "jsobj \<Rightarrow> agent list \<Rightarrow> jsobj \<Rightarrow> agent option" where
  "select_guarded task agents config =
     first_of (rule_matches name (guarded (map_of task ''agent'')) agents
               @ rule_matches command (guarded (map_of task ''tool'')) agents
               @ routed_matches config agents
               @ agents)"

subsection \<open>An agent to evaluate the router on\<close>

definition plain_agent :: "string \<Rightarrow> string \<Rightarrow> agent" where
  "plain_agent n c =
     \<lparr> name = JStr n, command = JStr c, promptMode = Argument, defaultArgs = [],
       useWorktree = False,
       source = [(''name'', JStr n), (''command'', JStr c), (''useWorktree'', JBool False)] \<rparr>"

section \<open>Strings\<close>

text \<open>\<^verbatim>\<open>name.endsWith(suffix)\<close>.\<close>

definition endsWith :: "string \<Rightarrow> string \<Rightarrow> bool" where
  "endsWith s suffix = (take (length suffix) (rev s) = rev suffix)"

text \<open>
  \<^verbatim>\<open>String.prototype.trim\<close> removes white space and line terminators at both ends; of the
  8-bit characters these are tab, line feed, vertical tab, form feed, carriage return,
  space and the no-break space.
\<close>

definition isWhiteSpace :: "char \<Rightarrow> bool" where
  "isWhiteSpace c = (of_char c \<in> {9::nat, 10, 11, 12, 13, 32, 160})"

definition trim :: "string \<Rightarrow> string" where
  "trim s = rev (dropWhile isWhiteSpace (rev (dropWhile isWhiteSpace s)))"

text \<open>
  A whole number printed in decimal, as \<^verbatim>\<open>String(n)\<close> and a template literal print a clock
  reading, an exit status or an index (all of them below \<open>2\<^sup>5\<^sup>3\<close>).
\<close>

fun digits :: "nat \<Rightarrow> string" where
  "digits n = (if n < 10 then [char_of (48 + n)]
               else digits (n div 10) @ [char_of (48 + n mod 10)])"

definition decimal :: "int \<Rightarrow> string" where
  "decimal i = (if i < 0 then CHR ''-'' # digits (nat (- i)) else digits (nat i))"

text \<open>\<^verbatim>\<open>Array.prototype.join\<close> with a comma, on texts.\<close>

fun joinComma :: "string list \<Rightarrow> string" where
  "joinComma [] = []"
| "joinComma [s] = s"
| "joinComma (s # t # ts) = s @ '','' @ joinComma (t # ts)"

text \<open>
  The steps of \<open>slugify\<close> (lines 82-88): lower case, every run of characters outside
  \<^verbatim>\<open>[a-z0-9]\<close> replaced by one hyphen, hyphens stripped at both ends, cut to 60
  characters, and \<^verbatim>\<open>task\<close> for an empty result. Among the 8-bit characters only
  \<^verbatim>\<open>A\<close>-\<^verbatim>\<open>Z\<close> have a lower case inside \<^verbatim>\<open>[a-z0-9]\<close>.
\<close>

definition toLowerCase :: "char \<Rightarrow> char" where
  "toLowerCase c = (if 65 \<le> (of_char c :: nat) \<and> (of_char c :: nat) \<le> 90
                    then char_of ((of_char c :: nat) + 32) else c)"

definition isSlugChar :: "char \<Rightarrow> bool" where
  "isSlugChar c = ((97 \<le> (of_char c :: nat) \<and> (of_char c :: nat) \<le> 122)
                   \<or> (48 \<le> (of_char c :: nat) \<and> (of_char c :: nat) \<le> 57))"

text \<open>The flag says that the previous character was already replaced.\<close>

fun hyphenate :: "bool \<Rightarrow> string \<Rightarrow> string" where
  "hyphenate inRun [] = []"
| "hyphenate inRun (c # cs) =
     (if isSlugChar c then c # hyphenate False cs
      else if inRun then hyphenate True cs
      else CHR ''-'' # hyphenate True cs)"

definition stripHyphens :: "string \<Rightarrow> string" where
  "stripHyphens s =
     rev (dropWhile (\<lambda>c. c = CHR ''-'') (rev (dropWhile (\<lambda>c. c = CHR ''-'') s)))"

text \<open>\<^verbatim>\<open>path.join(dir, name)\<close> for a normalised directory and a plain file name, and
  \<^verbatim>\<open>path.isAbsolute\<close>, on a POSIX host.\<close>

definition pathJoin :: "string \<Rightarrow> string \<Rightarrow> string" where
  "pathJoin d n = d @ ''/'' @ n"

definition isAbsolute :: "string \<Rightarrow> bool" where
  "isAbsolute p = (case p of [] \<Rightarrow> False | c # _ \<Rightarrow> c = CHR ''/'')"

section \<open>The host: the built-ins and the operating system\<close>

text \<open>
  What the daemon takes from outside its own source is a parameter of the model: the
  JSON parser and printer, \<^verbatim>\<open>Number\<close> on strings, \<^verbatim>\<open>String\<close> on the numbers beyond \<open>2\<^sup>5\<^sup>3\<close>,
  \<^verbatim>\<open>localeCompare\<close>, \<^verbatim>\<open>path.resolve\<close>, \<^verbatim>\<open>Date.prototype.toISOString\<close>, the process
  environment and the subprocesses. \<open>JSON_parse\<close> answers \<open>Inl\<close> with the text of the
  \<^verbatim>\<open>SyntaxError\<close> it raises, and lists the properties of an object in the order the
  language enumerates them; \<open>toNumber_string\<close> answers \<open>None\<close> for \<^verbatim>\<open>NaN\<close>; \<open>which\<close> is
  the probe of \<open>commandExists\<close> (lines 124-127): whether \<^verbatim>\<open>which\<close> exits with status 0, or
  \<open>None\<close> when the call itself raises; \<open>spawnSync\<close> answers \<open>Inl\<close> when the call raises
  (an argument it refuses) and the finished process otherwise.
\<close>

record spawn_call =
  program :: jsval
  args :: "string list"
  input :: "string option"
  cwd :: string
  env :: "jsobj option"

record spawn_result =
  status :: "int option"
  signal :: "string option"
  stdout :: "string option"
  stderr :: "string option"

record host =
  JSON_parse :: "string \<Rightarrow> string + jsval"
  JSON_stringify :: "jsval \<Rightarrow> string"
  toNumber_string :: "string \<Rightarrow> int option"
  toString_number :: "int \<Rightarrow> string"
  localeCompare :: "string \<Rightarrow> string \<Rightarrow> int"
  path_resolve :: "string \<Rightarrow> string \<Rightarrow> string"
  toISOString :: "int \<Rightarrow> string"
  processEnv :: jsobj
  which :: "jsval \<Rightarrow> bool option"
  spawnSync :: "spawn_call \<Rightarrow> string + spawn_result"

subsection \<open>Numbers\<close>

text \<open>
  A number is a double. Every whole number up to \<open>2\<^sup>5\<^sup>3\<close> in magnitude is one; beyond, the
  doubles are \<open>ulp\<close> apart: 2 apart up to \<open>2\<^sup>5\<^sup>4\<close>, 4 apart up to \<open>2\<^sup>5\<^sup>5\<close>, and so on.
  \<open>roundDouble\<close> is the double nearest to a whole number (\<open>nearest\<close> to its magnitude),
  the one with the even significand when two are equally near; the sum of two numbers
  is their exact sum rounded so. \<open>plusOne\<close> is \<^verbatim>\<open>n + 1\<close>, with \<open>None\<close> for \<^verbatim>\<open>NaN\<close>.
\<close>

fun ulp :: "nat \<Rightarrow> nat" where
  "ulp m = (if m < 2 ^ 53 then 1 else 2 * ulp (m div 2))"

definition nearest :: "nat \<Rightarrow> nat" where
  "nearest m =
     (let u = ulp m;
          q = m div u;
          rest = m mod u
      in if 2 * rest < u \<or> (2 * rest = u \<and> even q) then q * u else (q + 1) * u)"

definition roundDouble :: "int \<Rightarrow> int" where
  "roundDouble n = (if n < 0 then - int (nearest (nat (- n))) else int (nearest (nat n)))"


definition plusOne :: "int option \<Rightarrow> int option" where
  "plusOne n = map_option (\<lambda>a. roundDouble (a + 1)) n"

text \<open>\<^verbatim>\<open>a < b\<close> on numbers: false when either is \<^verbatim>\<open>NaN\<close>.\<close>

fun numLess :: "int option \<Rightarrow> int option \<Rightarrow> bool" where
  "numLess (Some a) (Some b) = (a < b)"
| "numLess _ _ = False"

text \<open>
  \<^verbatim>\<open>String(n)\<close> of a number: its decimal digits up to \<open>2\<^sup>5\<^sup>3\<close>; beyond, the shortest digits
  that read back as the same double, in the host's hands.
\<close>

definition numberString :: "host \<Rightarrow> int \<Rightarrow> string" where
  "numberString h n = (if \<bar>n\<bar> \<le> 2 ^ 53 then decimal n else toString_number h n)"

subsection \<open>Conversions\<close>

text \<open>
  \<^verbatim>\<open>String(v)\<close> and \<^verbatim>\<open>Number(v)\<close> of a parsed value raise a \<^verbatim>\<open>TypeError\<close> on an object that
  has a property of its own called \<^verbatim>\<open>toString\<close>: a parsed property is never a function,
  so the conversion finds no method to call. \<open>Inl\<close> is the error raised. An array prints
  its elements joined by commas, \<^verbatim>\<open>null\<close> elements as nothing, and raises what an element
  raises. \<open>sequence\<close> runs conversions from left to right up to the first that raises.
\<close>

fun sequence :: "('e + 'a) list \<Rightarrow> 'e + 'a list" where
  "sequence [] = Inr []"
| "sequence (x # xs) =
     (case x of
        Inl error \<Rightarrow> Inl error
      | Inr v \<Rightarrow> (case sequence xs of Inl error \<Rightarrow> Inl error | Inr vs \<Rightarrow> Inr (v # vs)))"

fun jsString :: "host \<Rightarrow> jsval \<Rightarrow> string + string" where
  "jsString h JNull = Inr ''null''"
| "jsString h (JBool b) = Inr (if b then ''true'' else ''false'')"
| "jsString h (JNum n) = Inr (numberString h n)"
| "jsString h (JStr s) = Inr s"
| "jsString h (JArr xs) =
     (case sequence (map (\<lambda>x. if x = JNull then Inr [] else jsString h x) xs) of
        Inl error \<Rightarrow> Inl error
      | Inr parts \<Rightarrow> Inr (joinComma parts))"
| "jsString h (JObj kvs) =
     (if map_of kvs ''toString'' = None then Inr ''[object Object]''
      else Inl ''TypeError: Cannot convert object to primitive value'')"

text \<open>\<^verbatim>\<open>xs.map(String)\<close>.\<close>

definition mapString :: "host \<Rightarrow> jsval list \<Rightarrow> string + string list" where
  "mapString h xs = sequence (map (jsString h) xs)"

text \<open>\<^verbatim>\<open>Number(v)\<close>: an array goes through its string, an object without a \<^verbatim>\<open>toString\<close> of
  its own is \<^verbatim>\<open>NaN\<close>.\<close>

fun toNumber :: "host \<Rightarrow> jsval \<Rightarrow> string + int option" where
  "toNumber h JNull = Inr (Some 0)"
| "toNumber h (JBool b) = Inr (Some (if b then 1 else 0))"
| "toNumber h (JNum n) = Inr (Some n)"
| "toNumber h (JStr s) = Inr (toNumber_string h s)"
| "toNumber h (JArr xs) =
     (case jsString h (JArr xs) of
        Inl error \<Rightarrow> Inl error
      | Inr s \<Rightarrow> Inr (toNumber_string h s))"
| "toNumber h (JObj kvs) =
     (if map_of kvs ''toString'' = None then Inr None
      else Inl ''TypeError: Cannot convert object to primitive value'')"

text \<open>\<^verbatim>\<open>v ?? d\<close>.\<close>

fun coalesce :: "jsval option \<Rightarrow> jsval \<Rightarrow> jsval" where
  "coalesce None d = d"
| "coalesce (Some JNull) d = d"
| "coalesce (Some v) d = v"

text \<open>
  \<open>slugify\<close> (lines 82-88): \<^verbatim>\<open>String(value || 'task')\<close>, which may raise, then the steps
  above.
\<close>

definition slugify :: "host \<Rightarrow> jsval option \<Rightarrow> string + string" where
  "slugify h v =
     (case jsString h (if truthy v then the v else JStr ''task'') of
        Inl error \<Rightarrow> Inl error
      | Inr text \<Rightarrow>
          (let slug = take 60 (stripHyphens (hyphenate False (map toLowerCase text)))
           in Inr (if slug = [] then ''task'' else slug)))"

subsection \<open>Objects\<close>

text \<open>
  The keys of an object come in this order: the array indices (\<^verbatim>\<open>0\<close>, \<^verbatim>\<open>1\<close>, ... up to
  \<open>2\<^sup>3\<^sup>2 - 2\<close>, written without a leading zero) in ascending order, then every other key in
  the order of its creation. \<open>setProp\<close> defines a property or overwrites it in place.
\<close>

definition isDigit :: "char \<Rightarrow> bool" where
  "isDigit c = (48 \<le> (of_char c :: nat) \<and> (of_char c :: nat) \<le> 57)"

definition digitsValue :: "string \<Rightarrow> nat" where
  "digitsValue s = foldl (\<lambda>n c. 10 * n + ((of_char c :: nat) - 48)) 0 s"

definition isArrayIndex :: "string \<Rightarrow> bool" where
  "isArrayIndex k =
     (k \<noteq> [] \<and> list_all isDigit k \<and> (k = ''0'' \<or> hd k \<noteq> CHR ''0'')
      \<and> digitsValue k < 2 ^ 32 - 1)"

fun insertIndex :: "string \<Rightarrow> jsval \<Rightarrow> jsobj \<Rightarrow> jsobj" where
  "insertIndex k v [] = [(k, v)]"
| "insertIndex k v (p # ps) =
     (if isArrayIndex (fst p) \<and> digitsValue (fst p) < digitsValue k
      then p # insertIndex k v ps
      else (k, v) # p # ps)"

definition setProp :: "string \<Rightarrow> jsval \<Rightarrow> jsobj \<Rightarrow> jsobj" where
  "setProp k v obj =
     (if isArrayIndex k \<and> map_of obj k = None then insertIndex k v obj
      else AList.update k v obj)"

text \<open>
  \<^verbatim>\<open>{...base, ...v}\<close>: the own enumerable properties of \<open>v\<close> written over \<open>base\<close>. A
  string and an array spread their indices; \<^verbatim>\<open>null\<close>, \<^verbatim>\<open>undefined\<close>, a number and a
  boolean spread nothing (so \<^verbatim>\<open>v || {}\<close> spreads what \<open>v\<close> does).
\<close>

definition indexed :: "jsval list \<Rightarrow> jsobj" where
  "indexed xs = zip (map (\<lambda>i. decimal (int i)) [0 ..< length xs]) xs"

fun ownProps :: "jsval option \<Rightarrow> jsobj" where
  "ownProps (Some (JObj kvs)) = kvs"
| "ownProps (Some (JArr xs)) = indexed xs"
| "ownProps (Some (JStr s)) = indexed (map (\<lambda>c. JStr [c]) s)"
| "ownProps _ = []"

definition spread :: "jsobj \<Rightarrow> jsval option \<Rightarrow> jsobj" where
  "spread base v = foldl (\<lambda>acc kv. setProp (fst kv) (snd kv) acc) base (ownProps v)"

subsection \<open>Directories\<close>

text \<open>
  A directory is its entries, file name and content, in the order \<^verbatim>\<open>readdirSync\<close>
  lists them. \<open>listFiles\<close> (lines 114-122) answers nothing for a directory that does not
  exist, and otherwise the names with the suffix, sorted by \<^verbatim>\<open>localeCompare\<close>; the sort
  is stable.
\<close>

type_synonym dir = "(string \<times> string) list"

fun insort_by :: "('a \<Rightarrow> 'a \<Rightarrow> int) \<Rightarrow> 'a \<Rightarrow> 'a list \<Rightarrow> 'a list" where
  "insort_by cmp x [] = [x]"
| "insort_by cmp x (y # ys) =
     (if cmp x y \<le> 0 then x # y # ys else y # insort_by cmp x ys)"

definition sort_by :: "('a \<Rightarrow> 'a \<Rightarrow> int) \<Rightarrow> 'a list \<Rightarrow> 'a list" where
  "sort_by cmp xs = foldr (insort_by cmp) xs []"

definition listFiles :: "host \<Rightarrow> dir option \<Rightarrow> string \<Rightarrow> string list" where
  "listFiles h d suffix =
     (case d of
        None \<Rightarrow> []
      | Some entries \<Rightarrow>
          sort_by (localeCompare h) (filter (\<lambda>n. endsWith n suffix) (map fst entries)))"

text \<open>\<open>readJson\<close> (lines 102-104) of a file's content.\<close>

definition readJson :: "host \<Rightarrow> string \<Rightarrow> string + jsval" where
  "readJson h content = JSON_parse h content"

text \<open>The text \<open>writeJson\<close> (lines 106-108) writes.\<close>

definition writeJson_text :: "host \<Rightarrow> jsval \<Rightarrow> string" where
  "writeJson_text h v = JSON_stringify h v @ [CHR 0x0A]"

section \<open>The agent registry: \<open>loadAgents\<close>\<close>

text \<open>
  The value stored for a definition that has passed the checks (lines 216-221), or the
  error \<^verbatim>\<open>agent.defaultArgs.map(String)\<close> raises.
\<close>

definition normalise :: "host \<Rightarrow> jsval \<Rightarrow> jsval \<Rightarrow> jsobj \<Rightarrow> string + agent" where
  "normalise h n c p =
     (case (case map_of p ''defaultArgs'' of
              Some (JArr xs) \<Rightarrow> mapString h xs
            | _ \<Rightarrow> Inr []) of
        Inl error \<Rightarrow> Inl error
      | Inr strings \<Rightarrow>
          Inr \<lparr> name = n, command = c,
                promptMode = (if map_of p ''promptMode'' = Some (JStr ''stdin'')
                              then Stdin else Argument),
                defaultArgs = strings,
                useWorktree = (map_of p ''useWorktree'' \<noteq> Some (JBool False)),
                source = p \<rparr>)"

text \<open>
  \<^verbatim>\<open>byName.set(key, value)\<close> on a \<^verbatim>\<open>Map\<close>: a key already present keeps its place and
  takes the new value, a new key goes last. Keys are compared as \<open>strictEq\<close> does (each
  comes from a file parsed on its own).
\<close>

fun mapSet :: "jsval \<Rightarrow> 'v \<Rightarrow> (jsval \<times> 'v) list \<Rightarrow> (jsval \<times> 'v) list" where
  "mapSet k v [] = [(k, v)]"
| "mapSet k v (p # ps) = (if strictEq (fst p) k then (fst p, v) # ps else p # mapSet k v ps)"

text \<open>
  One definition file (the body of the inner loop, lines 202-224). Every way out but
  the last leaves the registry as it was: a file that does not parse or parses to
  \<^verbatim>\<open>null\<close> (the read of \<^verbatim>\<open>agent.enabled\<close> raises; both are caught and logged), a
  definition with \<^verbatim>\<open>enabled: false\<close>, one without a truthy \<^verbatim>\<open>name\<close> or \<^verbatim>\<open>command\<close>, one
  whose command the host does not have, one whose \<^verbatim>\<open>defaultArgs\<close> cannot be converted
  (the error is caught and logged).
\<close>

definition loadFile :: "host \<Rightarrow> string \<Rightarrow> (jsval \<times> agent) list \<Rightarrow> (jsval \<times> agent) list" where
  "loadFile h content byName =
     (case readJson h content of
        Inl error \<Rightarrow> byName
      | Inr parsed \<Rightarrow>
          (let p = props parsed in
           if parsed = JNull then byName
           else if map_of p ''enabled'' = Some (JBool False) then byName
           else if \<not> truthy (map_of p ''name'') \<or> \<not> truthy (map_of p ''command'') then byName
           else (case which h (the (map_of p ''command'')) of
                   Some True \<Rightarrow>
                     (case normalise h (the (map_of p ''name'')) (the (map_of p ''command'')) p of
                        Inl error \<Rightarrow> byName
                      | Inr stored \<Rightarrow> mapSet (the (map_of p ''name'')) stored byName)
                 | _ \<Rightarrow> byName)))"

text \<open>The files of the directories in the order the two loops read them. The file
  system of agent definitions maps a directory path to its entries.\<close>

definition dirFiles :: "host \<Rightarrow> (string \<Rightarrow> dir option) \<Rightarrow> string \<Rightarrow> string list" where
  "dirFiles h fs agentsDir =
     (if agentsDir = [] then []
      else case fs agentsDir of
        None \<Rightarrow> []
      | Some entries \<Rightarrow>
          concat (map (\<lambda>fileName. case map_of entries fileName of
                                    None \<Rightarrow> []
                                  | Some content \<Rightarrow> [content])
                   (listFiles h (Some entries) ''.agent.json'')))"

definition loadAgents :: "host \<Rightarrow> (string \<Rightarrow> dir option) \<Rightarrow> string list \<Rightarrow> agent list" where
  "loadAgents h fs agentsDirs =
     map snd (foldl (\<lambda>byName content. loadFile h content byName) []
                (concat (map (dirFiles h fs) agentsDirs)))"

text \<open>
  When a definition file is eligible, and under which name: it parses to a value other
  than \<^verbatim>\<open>null\<close>, is not disabled, has a truthy name and command, the command is
  installed, and its \<^verbatim>\<open>defaultArgs\<close> can be converted.
\<close>

definition eligible :: "host \<Rightarrow> string \<Rightarrow> (jsval \<times> agent) option" where
  "eligible h content =
     (case readJson h content of
        Inl error \<Rightarrow> None
      | Inr parsed \<Rightarrow>
          (let p = props parsed in
           if parsed = JNull then None
           else if map_of p ''enabled'' = Some (JBool False) then None
           else if \<not> truthy (map_of p ''name'') \<or> \<not> truthy (map_of p ''command'') then None
           else (case which h (the (map_of p ''command'')) of
                   Some True \<Rightarrow>
                     (case normalise h (the (map_of p ''name'')) (the (map_of p ''command'')) p of
                        Inl error \<Rightarrow> None
                      | Inr stored \<Rightarrow> Some (the (map_of p ''name''), stored))
                 | _ \<Rightarrow> None)))"

text \<open>The name a file defines, eligible or not.\<close>

definition definedName :: "host \<Rightarrow> string \<Rightarrow> jsval option" where
  "definedName h content =
     (case readJson h content of
        Inl error \<Rightarrow> None
      | Inr parsed \<Rightarrow> map_of (props parsed) ''name'')"

text \<open>The registry's entries for a name.\<close>

definition entriesFor :: "jsval \<Rightarrow> agent list \<Rightarrow> agent list" where
  "entriesFor n agents = filter (\<lambda>a. strictEq (name a) n) agents"

section \<open>The execution engine: \<open>runAgent\<close>\<close>

text \<open>
  \<open>runAgent\<close> (lines 310-333). \<open>commandArgs\<close> is line 313: the task's \<^verbatim>\<open>commandArgs\<close>
  converted, or the error the conversion raises. \<open>runAgent_call\<close> is the call handed to
  \<^verbatim>\<open>spawnSync\<close>, when the function gets that far.
\<close>

definition commandArgs :: "host \<Rightarrow> jsobj \<Rightarrow> string + string list" where
  "commandArgs h task =
     (case map_of task ''commandArgs'' of
        Some (JArr xs) \<Rightarrow> mapString h xs
      | _ \<Rightarrow> Inr [])"

definition runAgent_call ::
  "host \<Rightarrow> agent \<Rightarrow> jsobj \<Rightarrow> string \<Rightarrow> string \<Rightarrow> string + spawn_call" where
  "runAgent_call h agent task prompt runCwd =
     (case commandArgs h task of
        Inl error \<Rightarrow> Inl error
      | Inr extra \<Rightarrow>
          (let argv = defaultArgs agent @ extra;
               environment = spread (spread (spread [] (Some (JObj (processEnv h))))
                                       (map_of (source agent) ''env''))
                               (map_of task ''env'')
           in if promptMode agent = Stdin
              then Inr \<lparr> program = command agent, args = argv, input = Some prompt,
                         cwd = runCwd, env = Some environment \<rparr>
              else Inr \<lparr> program = command agent, args = argv @ [prompt], input = None,
                         cwd = runCwd, env = Some environment \<rparr>))"

definition runAgent :: "host \<Rightarrow> agent \<Rightarrow> jsobj \<Rightarrow> string \<Rightarrow> string \<Rightarrow> string + spawn_result" where
  "runAgent h agent task prompt runCwd =
     (case runAgent_call h agent task prompt runCwd of
        Inl error \<Rightarrow> Inl error
      | Inr call \<Rightarrow> spawnSync h call)"

section \<open>The queue store\<close>

text \<open>
  The state the daemon acts on: the four queue directories, the run directories (each a
  directory of its own under \<^verbatim>\<open>runs\<close>), the event log \<^verbatim>\<open>daemon.log\<close> (one payload per
  line, kept here as the payload), and the calls of \<^verbatim>\<open>spawnSync\<close> made so far, in order.
  Console output is not part of the state. File-system calls fail only for a reason the
  state shows: \<open>renameSync\<close> raises when its source is not there; a rename onto an
  existing name replaces it.
\<close>

record state =
  inbox :: dir
  processing :: dir
  completed :: dir
  failed :: dir
  runs :: "(string \<times> dir) list"
  daemonLog :: "jsobj list"
  spawned :: "spawn_call list"

datatype qdir = Inbox | Processing | Completed | Failed

fun getDir :: "qdir \<Rightarrow> state \<Rightarrow> dir" where
  "getDir Inbox st = inbox st"
| "getDir Processing st = processing st"
| "getDir Completed st = completed st"
| "getDir Failed st = failed st"

fun setDir :: "qdir \<Rightarrow> dir \<Rightarrow> state \<Rightarrow> state" where
  "setDir Inbox d st = st\<lparr>inbox := d\<rparr>"
| "setDir Processing d st = st\<lparr>processing := d\<rparr>"
| "setDir Completed d st = st\<lparr>completed := d\<rparr>"
| "setDir Failed d st = st\<lparr>failed := d\<rparr>"

fun dirName :: "qdir \<Rightarrow> string" where
  "dirName Inbox = ''inbox''"
| "dirName Processing = ''processing''"
| "dirName Completed = ''completed''"
| "dirName Failed = ''failed''"

definition renameSync :: "qdir \<Rightarrow> string \<Rightarrow> qdir \<Rightarrow> string \<Rightarrow> state \<Rightarrow> string + state" where
  "renameSync src srcName dst dstName st =
     (case map_of (getDir src st) srcName of
        None \<Rightarrow> Inl ''Error: ENOENT: no such file or directory, rename''
      | Some content \<Rightarrow>
          (let st1 = setDir src (AList.delete srcName (getDir src st)) st
           in Inr (setDir dst (AList.update dstName content (getDir dst st1)) st1)))"

text \<open>
  The context of one call of \<open>processOneTask\<close>. The queue directories are
  \<^verbatim>\<open>path.join(homeDir, 'inbox')\<close> and so on, as \<open>main\<close> builds them (lines 510-519).
\<close>

record daemon_context =
  ctx_config :: jsobj
  ctx_agents :: "agent list"
  repoRoot :: string
  homeDir :: string

definition dirPath :: "daemon_context \<Rightarrow> string \<Rightarrow> string" where
  "dirPath ctx d = pathJoin (homeDir ctx) d"

text \<open>
  \<open>moveFileToDir\<close> (lines 166-173) of the file \<open>fileName\<close> of a queue directory: the new
  path, and the state after the rename.
\<close>

definition moveFileToDir ::
  "daemon_context \<Rightarrow> qdir \<Rightarrow> string \<Rightarrow> qdir \<Rightarrow> string \<Rightarrow> state \<Rightarrow> string + (string \<times> state)" where
  "moveFileToDir ctx src fileName targetDir prefix st =
     (let targetName = prefix @ ''-'' @ fileName
      in case renameSync src fileName targetDir targetName st of
           Inl error \<Rightarrow> Inl error
         | Inr st' \<Rightarrow> Inr (pathJoin (dirPath ctx (dirName targetDir)) targetName, st'))"

definition appendEvent :: "jsobj \<Rightarrow> state \<Rightarrow> state" where
  "appendEvent payload st = st\<lparr>daemonLog := daemonLog st @ [payload]\<rparr>"

definition writeRunFile :: "string \<Rightarrow> string \<Rightarrow> string \<Rightarrow> state \<Rightarrow> state" where
  "writeRunFile runName fileName content st =
     st\<lparr>runs := AList.update runName
                    (AList.update fileName content
                       (case map_of (runs st) runName of None \<Rightarrow> [] | Some d \<Rightarrow> d))
                    (runs st)\<rparr>"

section \<open>Recovery: \<open>recoverProcessing\<close>\<close>



section \<open>The worktree manager\<close>

text \<open>\<^verbatim>\<open>a || b\<close> on captured output: \<^verbatim>\<open>null\<close> and the empty string give way.\<close>

fun strOr :: "string option \<Rightarrow> string \<Rightarrow> string" where
  "strOr None d = d"
| "strOr (Some s) d = (if s = [] then d else s)"

text \<open>
  What one call of \<open>processOneTask\<close> reads from the clock, by the place that reads it:
  \<^verbatim>\<open>Date.now()\<close> at lines 357, 398, 264, 419, at the move (432, 454 or 471) and in the
  handler (488); \<^verbatim>\<open>tsCompact()\<close> at line 393; \<^verbatim>\<open>nowIso()\<close> at lines 418 and 452 and in
  the event.
\<close>

record readings =
  loopStamp :: int
  startedAt :: int
  worktreeStamp :: int
  finishedAt :: int
  moveStamp :: int
  catchStamp :: int
  runStamp :: string
  finishedIso :: string
  triedIso :: string
  eventIso :: string

definition branchPrefix :: "host \<Rightarrow> string" where
  "branchPrefix h =
     (let raw = (case map_of (processEnv h) ''AUTO_DELEGATE_BRANCH_PREFIX'' of
                   Some (JStr s) \<Rightarrow> if s = [] then ''autodelegate/'' else s
                 | _ \<Rightarrow> ''autodelegate/'')
      in if endsWith raw ''/'' then raw else raw @ ''/'')"

definition replaceSlashes :: "string \<Rightarrow> string" where
  "replaceSlashes s = concat (map (\<lambda>c. if c = CHR ''/'' then ''__'' else [c]) s)"

text \<open>
  \<open>createWorktree\<close> (lines 262-276): the branch and the path, or the error it raises:
  what \<open>slugify\<close> raises on the agent's name or the task's id (then \<^verbatim>\<open>git\<close> is not
  run), and its own error when \<^verbatim>\<open>git worktree add\<close> does not exit with status 0.
\<close>

definition worktreeBranch :: "host \<Rightarrow> readings \<Rightarrow> jsval \<Rightarrow> jsval \<Rightarrow> string + string" where
  "worktreeBranch h r agentName taskId =
     (case slugify h (Some agentName) of
        Inl error \<Rightarrow> Inl error
      | Inr agentSlug \<Rightarrow>
          (case slugify h (Some taskId) of
             Inl error \<Rightarrow> Inl error
           | Inr taskSlug \<Rightarrow>
               Inr (branchPrefix h @ agentSlug @ ''-'' @ taskSlug
                    @ ''-'' @ decimal (worktreeStamp r))))"

definition worktreePathOf :: "daemon_context \<Rightarrow> string \<Rightarrow> string" where
  "worktreePathOf ctx branch = pathJoin (dirPath ctx ''worktrees'') (replaceSlashes branch)"

definition worktreeAdd :: "daemon_context \<Rightarrow> string \<Rightarrow> spawn_call" where
  "worktreeAdd ctx branch =
     \<lparr> program = JStr ''git'',
       args = [''worktree'', ''add'', ''-b'', branch, worktreePathOf ctx branch],
       input = None, cwd = repoRoot ctx, env = None \<rparr>"

definition createWorktree ::
  "host \<Rightarrow> readings \<Rightarrow> daemon_context \<Rightarrow> jsval \<Rightarrow> jsval \<Rightarrow> state
   \<Rightarrow> (string + (string \<times> string)) \<times> state" where
  "createWorktree h r ctx agentName taskId st =
     (case worktreeBranch h r agentName taskId of
        Inl error \<Rightarrow> (Inl error, st)
      | Inr branch \<Rightarrow>
          (let worktreePath = worktreePathOf ctx branch;
               st' = st\<lparr>spawned := spawned st @ [worktreeAdd ctx branch]\<rparr>
           in case spawnSync h (worktreeAdd ctx branch) of
                Inl error \<Rightarrow> (Inl error, st')
              | Inr result \<Rightarrow>
                  if status result \<noteq> Some 0
                  then (Inl (''Error: git worktree add failed: ''
                             @ trim (strOr (stderr result) (strOr (stdout result) []))), st')
                  else (Inr (branch, worktreePath), st')))"

text \<open>\<open>cleanupWorktree\<close> (lines 278-287): the error, if the call itself raises.\<close>

definition worktreeRemove :: "daemon_context \<Rightarrow> string \<Rightarrow> spawn_call" where
  "worktreeRemove ctx worktreePath =
     \<lparr> program = JStr ''git'',
       args = [''worktree'', ''remove'', ''--force'', worktreePath],
       input = None, cwd = repoRoot ctx, env = None \<rparr>"

definition cleanupWorktree ::
  "host \<Rightarrow> daemon_context \<Rightarrow> string \<Rightarrow> state \<Rightarrow> string option \<times> state" where
  "cleanupWorktree h ctx worktreePath st =
     (let st' = st\<lparr>spawned := spawned st @ [worktreeRemove ctx worktreePath]\<rparr>
      in case spawnSync h (worktreeRemove ctx worktreePath) of
           Inl error \<Rightarrow> (Some error, st')
         | Inr result \<Rightarrow> (None, st'))"

text \<open>
  \<open>resolveRunCwd\<close> (lines 289-298). \<^verbatim>\<open>path.isAbsolute\<close> raises on a truthy value that is
  not a string.
\<close>

definition resolveRunCwd ::
  "host \<Rightarrow> string \<Rightarrow> string option \<Rightarrow> jsval option \<Rightarrow> string + string" where
  "resolveRunCwd h root worktreePath taskCwd =
     (let base = strOr worktreePath root
      in if \<not> truthy taskCwd then Inr base
         else (case taskCwd of
                 Some (JStr s) \<Rightarrow> if isAbsolute s then Inr s else Inr (path_resolve h base s)
               | _ \<Rightarrow> Inl ''TypeError: The path argument must be of type string''))"

section \<open>The task lifecycle: \<open>processOneTask\<close>\<close>

text \<open>
  A call of \<open>processOneTask\<close> either returns its boolean or raises; what it raises
  leaves \<open>main\<close> through \<^verbatim>\<open>main().catch\<close>, which ends the process with exit code 1
  (lines 570-573). Either way the state is the one reached. The text of an error is
  its name and message, without the operands the host adds to it.
\<close>

datatype outcome = Returned bool | Thrown string

definition statusText :: "int option \<Rightarrow> string" where
  "statusText s = (case s of None \<Rightarrow> ''null'' | Some n \<Rightarrow> decimal n)"

definition numVal :: "int option \<Rightarrow> jsval" where
  "numVal n = (case n of None \<Rightarrow> JNull | Some i \<Rightarrow> JNum i)"

definition strVal :: "string option \<Rightarrow> jsval" where
  "strVal s = (case s of None \<Rightarrow> JNull | Some t \<Rightarrow> if t = [] then JNull else JStr t)"

text \<open>\<^verbatim>\<open>path.basename(fileName, '.json')\<close>.\<close>

definition basename_json :: "string \<Rightarrow> string" where
  "basename_json fileName =
     (if endsWith fileName ''.json'' then take (length fileName - 5) fileName else fileName)"

text \<open>Lines 373-374: the task's id and its prompt.\<close>

definition taskIdOf :: "string \<Rightarrow> jsobj \<Rightarrow> jsval" where
  "taskIdOf fileName task =
     (if truthy (map_of task ''id'') then the (map_of task ''id'')
      else JStr (basename_json fileName))"

definition promptOf :: "jsobj \<Rightarrow> string" where
  "promptOf task = (case map_of task ''prompt'' of Some (JStr s) \<Rightarrow> s | _ \<Rightarrow> [])"

text \<open>Lines 428-429: the two numbers, or the error \<^verbatim>\<open>Number\<close> raises.\<close>

definition maxAttempts_of :: "host \<Rightarrow> daemon_context \<Rightarrow> jsobj \<Rightarrow> string + int option" where
  "maxAttempts_of h ctx task =
     toNumber h (coalesce (map_of task ''maxAttempts'')
                   (coalesce (map_of (ctx_config ctx) ''defaultMaxAttempts'') (JNum 1)))"

definition attempt_of :: "host \<Rightarrow> jsobj \<Rightarrow> string + int option" where
  "attempt_of h task = toNumber h (coalesce (map_of task ''attempt'') (JNum 0))"

text \<open>
  The task as the retry branch rewrites it (lines 450-452), \<open>incremented\<close> being
  \<^verbatim>\<open>attempt + 1\<close>. None of the three keys is an array index, so each write replaces the
  property in place or adds it last.
\<close>

definition retried :: "readings \<Rightarrow> int option \<Rightarrow> jsobj \<Rightarrow> spawn_result \<Rightarrow> jsobj" where
  "retried r incremented task result =
     AList.update ''lastTriedAt'' (JStr (triedIso r))
       (AList.update ''lastError''
          (JStr (take 5000 (strOr (stderr result) (''exit_'' @ statusText (status result)))))
          (AList.update ''attempt'' (numVal incremented) task))"

text \<open>
  The end of each of the three branches (lines 443-446, 465-468, 483-486): the cleanup,
  when the configuration asks for it and there is a worktree, and \<^verbatim>\<open>return true\<close>.
\<close>

definition cleanupIf ::
  "host \<Rightarrow> daemon_context \<Rightarrow> string \<Rightarrow> (string \<times> string) option \<Rightarrow> state
   \<Rightarrow> (string + bool) \<times> state" where
  "cleanupIf h ctx key worktree st =
     (if truthy (map_of (ctx_config ctx) key) \<and> worktree \<noteq> None
      then (case cleanupWorktree h ctx (snd (the worktree)) st of
              (Some error, st') \<Rightarrow> (Inl error, st')
            | (None, st') \<Rightarrow> (Inr True, st'))
      else (Inr True, st))"

text \<open>
  Lines 431-486: what happens to the claimed file once the agent has run and the two
  numbers are read. \<open>Inl\<close> is an error raised inside the \<^verbatim>\<open>try\<close> block.
\<close>

definition processOneTask_settle ::
  "host \<Rightarrow> readings \<Rightarrow> daemon_context \<Rightarrow> string \<Rightarrow> jsobj \<Rightarrow> jsval \<Rightarrow> agent \<Rightarrow> string
   \<Rightarrow> (string \<times> string) option \<Rightarrow> spawn_result \<Rightarrow> int option \<Rightarrow> int option \<Rightarrow> state
   \<Rightarrow> (string + bool) \<times> state" where
  "processOneTask_settle h r ctx fileName task taskId agent runDir worktree result
     maxAttempts attempt st =
     (if status result = Some 0 then
        (case moveFileToDir ctx Processing fileName Completed (decimal (moveStamp r)) st of
           Inl error \<Rightarrow> (Inl error, st)
         | Inr (completedPath, st1) \<Rightarrow>
             (let st2 = appendEvent
                    [(''at'', JStr (eventIso r)), (''status'', JStr ''completed''),
                     (''taskId'', taskId), (''taskFile'', JStr completedPath),
                     (''runDir'', JStr runDir), (''agent'', name agent),
                     (''tool'', command agent),
                     (''branch'', strVal (map_option fst worktree))] st1
              in cleanupIf h ctx ''cleanupWorktreeOnSuccess'' worktree st2))
      else if numLess (plusOne attempt) maxAttempts then
        (let task' = retried r (plusOne attempt) task result;
             st0 = st\<lparr>processing :=
                       AList.update fileName (writeJson_text h (JObj task')) (processing st)\<rparr>
         in case moveFileToDir ctx Processing fileName Inbox
                   (''retry-'' @ decimal (moveStamp r)) st0 of
              Inl error \<Rightarrow> (Inl error, st0)
            | Inr (requeuedPath, st1) \<Rightarrow>
                (let st2 = appendEvent
                       [(''at'', JStr (eventIso r)), (''status'', JStr ''retrying''),
                        (''taskId'', taskId),
                        (''attempt'', numVal (plusOne attempt)),
                        (''maxAttempts'', numVal maxAttempts),
                        (''taskFile'', JStr requeuedPath), (''runDir'', JStr runDir),
                        (''agent'', name agent)] st1
                 in cleanupIf h ctx ''cleanupWorktreeOnFailure'' worktree st2))
      else
        (case moveFileToDir ctx Processing fileName Failed (decimal (moveStamp r)) st of
           Inl error \<Rightarrow> (Inl error, st)
         | Inr (failedPath, st1) \<Rightarrow>
             (let st2 = appendEvent
                    [(''at'', JStr (eventIso r)), (''status'', JStr ''failed''),
                     (''reason'', JStr (''exit_'' @ statusText (status result))),
                     (''taskId'', taskId), (''taskFile'', JStr failedPath),
                     (''runDir'', JStr runDir), (''agent'', name agent),
                     (''tool'', command agent),
                     (''branch'', strVal (map_option fst worktree))] st1
              in cleanupIf h ctx ''cleanupWorktreeOnFailure'' worktree st2)))"

text \<open>
  Lines 428-429, then the rest: the two numbers are read, \<^verbatim>\<open>maxAttempts\<close> first, and
  what either read raises is raised inside the \<^verbatim>\<open>try\<close> block, whatever the status of
  the agent.
\<close>

definition processOneTask_attempts ::
  "host \<Rightarrow> readings \<Rightarrow> daemon_context \<Rightarrow> string \<Rightarrow> jsobj \<Rightarrow> jsval \<Rightarrow> agent \<Rightarrow> string
   \<Rightarrow> (string \<times> string) option \<Rightarrow> spawn_result \<Rightarrow> state \<Rightarrow> (string + bool) \<times> state" where
  "processOneTask_attempts h r ctx fileName task taskId agent runDir worktree result st =
     (case maxAttempts_of h ctx task of
        Inl error \<Rightarrow> (Inl error, st)
      | Inr maxAttempts \<Rightarrow>
          (case attempt_of h task of
             Inl error \<Rightarrow> (Inl error, st)
           | Inr attempt \<Rightarrow>
               processOneTask_settle h r ctx fileName task taskId agent runDir worktree
                 result maxAttempts attempt st))"

text \<open>The summary record of a run (lines 412-425).\<close>

definition summary ::
  "host \<Rightarrow> readings \<Rightarrow> jsval \<Rightarrow> agent \<Rightarrow> string \<Rightarrow> (string \<times> string) option
   \<Rightarrow> spawn_result \<Rightarrow> jsobj" where
  "summary h r taskId agent runDir worktree result =
     [(''status'', JStr (if status result = Some 0 then ''completed'' else ''failed'')),
      (''taskId'', taskId), (''agent'', name agent), (''tool'', command agent),
      (''startedAt'', JStr (toISOString h (startedAt r))),
      (''finishedAt'', JStr (finishedIso r)),
      (''durationMs'', JNum (finishedAt r - startedAt r)),
      (''exitCode'', numVal (status result)),
      (''signal'', (case signal result of None \<Rightarrow> JNull | Some s \<Rightarrow> JStr s)),
      (''runDir'', JStr runDir),
      (''worktree'', strVal (map_option snd worktree)),
      (''branch'', strVal (map_option fst worktree))]"

text \<open>
  The \<^verbatim>\<open>try\<close> block (lines 401-487): the result, or the error raised, with the worktree
  as the handler sees it.
\<close>

definition processOneTask_try ::
  "host \<Rightarrow> readings \<Rightarrow> daemon_context \<Rightarrow> string \<Rightarrow> jsobj \<Rightarrow> jsval \<Rightarrow> string \<Rightarrow> agent
   \<Rightarrow> string \<Rightarrow> state \<Rightarrow> ((string + bool) \<times> (string \<times> string) option) \<times> state" where
  "processOneTask_try h r ctx fileName task taskId prompt agent runName st =
     (let runDir = pathJoin (dirPath ctx ''runs'') runName
      in case (if useWorktree agent
               then (case createWorktree h r ctx (name agent) taskId st of
                       (Inl error, st1) \<Rightarrow> (Inl error, st1)
                     | (Inr created, st1) \<Rightarrow> (Inr (Some created), st1))
               else (Inr None, st)) of
           (Inl error, st1) \<Rightarrow> ((Inl error, None), st1)
         | (Inr worktree, st1) \<Rightarrow>
             (case resolveRunCwd h (repoRoot ctx) (map_option snd worktree)
                     (map_of task ''cwd'') of
                Inl error \<Rightarrow> ((Inl error, worktree), st1)
              | Inr runCwd \<Rightarrow>
                  (let st2 = st1\<lparr>spawned :=
                               spawned st1
                               @ (case runAgent_call h agent task prompt runCwd of
                                    Inl error \<Rightarrow> []
                                  | Inr call \<Rightarrow> [call])\<rparr>
                   in case runAgent h agent task prompt runCwd of
                        Inl error \<Rightarrow> ((Inl error, worktree), st2)
                      | Inr result \<Rightarrow>
                          (let st3 = writeRunFile runName ''stdout.log''
                                       (strOr (stdout result) '''') st2;
                               st4 = writeRunFile runName ''stderr.log''
                                       (strOr (stderr result) '''') st3;
                               st5 = writeRunFile runName ''summary.json''
                                       (writeJson_text h
                                          (JObj (summary h r taskId agent runDir worktree result)))
                                       st4
                           in case processOneTask_attempts h r ctx fileName task taskId agent
                                     runDir worktree result st5 of
                                (answer, st6) \<Rightarrow> ((answer, worktree), st6)))))"

text \<open>The event the handler appends (lines 489-500).\<close>

definition exceptionEvent ::
  "readings \<Rightarrow> daemon_context \<Rightarrow> jsval \<Rightarrow> string \<Rightarrow> agent \<Rightarrow> (string \<times> string) option
   \<Rightarrow> string \<Rightarrow> string \<Rightarrow> jsobj" where
  "exceptionEvent r ctx taskId runName agent worktree error failedPath =
     [(''at'', JStr (eventIso r)), (''status'', JStr ''failed''),
      (''reason'', JStr ''runtime_exception''),
      (''taskId'', taskId), (''taskFile'', JStr failedPath),
      (''runDir'', JStr (pathJoin (dirPath ctx ''runs'') runName)),
      (''error'', JStr error), (''agent'', name agent),
      (''tool'', command agent),
      (''branch'', strVal (map_option fst worktree))]"

text \<open>
  Lines 393-502: the run directory, the \<^verbatim>\<open>try\<close> block and its handler. The name of the
  run directory is built outside the \<^verbatim>\<open>try\<close> block: what \<open>slugify\<close> raises on the
  task's id leaves the function. So does what the move in the handler raises.
\<close>

definition processOneTask_run ::
  "host \<Rightarrow> readings \<Rightarrow> daemon_context \<Rightarrow> string \<Rightarrow> jsobj \<Rightarrow> agent \<Rightarrow> state
   \<Rightarrow> outcome \<times> state" where
  "processOneTask_run h r ctx fileName task agent st =
     (let taskId = taskIdOf fileName task;
          prompt = promptOf task
      in case slugify h (Some taskId) of
           Inl raised \<Rightarrow> (Thrown raised, st)
         | Inr slug \<Rightarrow>
             (let runName = runStamp r @ ''-'' @ slug;
                  st1 = writeRunFile runName ''task.json'' (writeJson_text h (JObj task)) st;
                  st2 = writeRunFile runName ''prompt.txt'' (prompt @ [CHR 0x0A]) st1
              in case processOneTask_try h r ctx fileName task taskId prompt agent runName
                        st2 of
                   ((Inr answer, worktree), st3) \<Rightarrow> (Returned answer, st3)
                 | ((Inl error, worktree), st3) \<Rightarrow>
                     (case moveFileToDir ctx Processing fileName Failed
                             (decimal (catchStamp r)) st3 of
                        Inl raised \<Rightarrow> (Thrown raised, st3)
                      | Inr (failedPath, st4) \<Rightarrow>
                          (Returned True,
                           appendEvent
                             (exceptionEvent r ctx taskId runName agent worktree error
                                failedPath)
                             st4))))"

text \<open>
  Lines 373-391, for the properties of a parsed file that is not \<^verbatim>\<open>null\<close>: the check of
  the prompt and the choice of the agent. The moves stand outside every \<^verbatim>\<open>try\<close> block.
\<close>

definition processOneTask_task ::
  "host \<Rightarrow> readings \<Rightarrow> daemon_context \<Rightarrow> string \<Rightarrow> jsobj \<Rightarrow> state \<Rightarrow> outcome \<times> state" where
  "processOneTask_task h r ctx fileName task st =
     (if trim (promptOf task) = [] then
        (case moveFileToDir ctx Processing fileName Failed (decimal (loopStamp r)) st of
           Inl raised \<Rightarrow> (Thrown raised, st)
         | Inr (failedPath, st1) \<Rightarrow>
             (Returned True,
              appendEvent
                [(''at'', JStr (eventIso r)), (''status'', JStr ''failed''),
                 (''reason'', JStr ''missing_prompt''), (''taskId'', taskIdOf fileName task),
                 (''file'', JStr failedPath)] st1))
      else
        (case pickAgent task (ctx_agents ctx) (ctx_config ctx) of
           None \<Rightarrow>
             (case moveFileToDir ctx Processing fileName Inbox
                     (''waiting-'' @ decimal (loopStamp r)) st of
                Inl raised \<Rightarrow> (Thrown raised, st)
              | Inr (waitingPath, st1) \<Rightarrow> (Returned True, st1))
         | Some agent \<Rightarrow> processOneTask_run h r ctx fileName task agent st))"

text \<open>
  Lines 357-373: the handling of a file already claimed into \<^verbatim>\<open>processing\<close>. The read of
  \<^verbatim>\<open>task.id\<close> (line 373) raises when the file parses to \<^verbatim>\<open>null\<close>; it stands outside
  both \<^verbatim>\<open>try\<close> blocks, as does the move of line 362.
\<close>

definition processOneTask_claimed ::
  "host \<Rightarrow> readings \<Rightarrow> daemon_context \<Rightarrow> string \<Rightarrow> state \<Rightarrow> outcome \<times> state" where
  "processOneTask_claimed h r ctx fileName st =
     (case (case map_of (processing st) fileName of
              None \<Rightarrow> Inl ''Error: ENOENT: no such file or directory, open''
            | Some content \<Rightarrow> readJson h content) of
        Inl error \<Rightarrow>
          (case moveFileToDir ctx Processing fileName Failed (decimal (loopStamp r)) st of
             Inl raised \<Rightarrow> (Thrown raised, st)
           | Inr (failedPath, st1) \<Rightarrow>
               (Returned True,
                appendEvent
                  [(''at'', JStr (eventIso r)), (''status'', JStr ''failed''),
                   (''reason'', JStr ''invalid_json''), (''file'', JStr failedPath),
                   (''error'', JStr error)] st1))
      | Inr parsed \<Rightarrow>
          if parsed = JNull
          then (Thrown ''TypeError: Cannot read properties of null'', st)
          else processOneTask_task h r ctx fileName (props parsed) st)"

text \<open>
  Lines 338-355, from a listing of the inbox: nothing pending, no agent, or the claim, a
  rename whose failure (the file is no longer in the inbox) ends the call.
\<close>

definition processOneTask_listed ::
  "host \<Rightarrow> readings \<Rightarrow> daemon_context \<Rightarrow> string list \<Rightarrow> state \<Rightarrow> outcome \<times> state" where
  "processOneTask_listed h r ctx taskFiles st =
     (case taskFiles of
        [] \<Rightarrow> (Returned False, st)
      | fileName # others \<Rightarrow>
          if ctx_agents ctx = [] then (Returned True, st)
          else (case renameSync Inbox fileName Processing fileName st of
                  Inl error \<Rightarrow> (Returned True, st)
                | Inr st1 \<Rightarrow> processOneTask_claimed h r ctx fileName st1))"

definition processOneTask :: "host \<Rightarrow> readings \<Rightarrow> daemon_context \<Rightarrow> state \<Rightarrow> outcome \<times> state" where
  "processOneTask h r ctx st =
     processOneTask_listed h r ctx (listFiles h (Some (inbox st)) ''.json'') st"

section \<open>Words of the claims about \<open>processOneTask\<close>\<close>

text \<open>
  \<open>agentRan\<close>: the call claims the first pending file \<open>fileName\<close>, whose \<open>content\<close>
  parses to the object \<open>task\<close> with a prompt that is not blank; \<open>agent\<close> is selected for
  it; the run directory is named after \<open>slug\<close>, the slug of the task's id; the worktree
  of the agent, when it uses one, is created; and the execution of the agent ends with
  \<open>result\<close>.
\<close>

definition agentRan ::
  "host \<Rightarrow> readings \<Rightarrow> daemon_context \<Rightarrow> state \<Rightarrow> string \<Rightarrow> string \<Rightarrow> jsobj \<Rightarrow> agent
   \<Rightarrow> string \<Rightarrow> (string \<times> string) option \<Rightarrow> spawn_result \<Rightarrow> bool" where
  "agentRan h r ctx st fileName content task agent slug worktree result =
     ((case listFiles h (Some (inbox st)) ''.json'' of
         [] \<Rightarrow> False
       | first # others \<Rightarrow> first = fileName)
      \<and> map_of (inbox st) fileName = Some content
      \<and> readJson h content = Inr (JObj task)
      \<and> trim (promptOf task) \<noteq> []
      \<and> pickAgent task (ctx_agents ctx) (ctx_config ctx) = Some agent
      \<and> slugify h (Some (taskIdOf fileName task)) = Inr slug
      \<and> (if useWorktree agent
          then (case worktreeBranch h r (name agent) (taskIdOf fileName task) of
                  Inl error \<Rightarrow> False
                | Inr branch \<Rightarrow>
                    worktree = Some (branch, worktreePathOf ctx branch)
                    \<and> (case spawnSync h (worktreeAdd ctx branch) of
                          Inl error \<Rightarrow> False
                        | Inr added \<Rightarrow> status added = Some 0))
          else worktree = None)
      \<and> (case resolveRunCwd h (repoRoot ctx) (map_option snd worktree) (map_of task ''cwd'') of
           Inl error \<Rightarrow> False
         | Inr runCwd \<Rightarrow> runAgent h agent task (promptOf task) runCwd = Inr result))"

text \<open>
  Whether the cleanup of the worktree, switched on by the configuration key, raises:
  the call of \<^verbatim>\<open>spawnSync\<close> for \<^verbatim>\<open>git worktree remove\<close> itself fails.
\<close>

definition cleanupRaises ::
  "host \<Rightarrow> daemon_context \<Rightarrow> string \<Rightarrow> (string \<times> string) option \<Rightarrow> bool" where
  "cleanupRaises h ctx key worktree =
     (truthy (map_of (ctx_config ctx) key)
      \<and> (case worktree of
           None \<Rightarrow> False
         | Some created \<Rightarrow>
             (case spawnSync h (worktreeRemove ctx (snd created)) of
                Inl error \<Rightarrow> True
              | Inr removed \<Rightarrow> False)))"




text \<open>Two states with the same queue directories and the same event log.\<close>

definition sameQueue :: "state \<Rightarrow> state \<Rightarrow> bool" where
  "sameQueue st st' =
     (inbox st' = inbox st \<and> processing st' = processing st \<and> completed st' = completed st
      \<and> failed st' = failed st \<and> daemonLog st' = daemonLog st)"

section \<open>A host and a queue to evaluate the daemon on\<close>

text \<open>
  A small host: it parses the documents of a table and refuses every other text, prints
  JSON on one line, orders file names by character code, joins a relative path to its
  base, knows every command, and runs subprocesses as the function it is given says.
\<close>

fun printJson :: "jsval \<Rightarrow> string" where
  "printJson JNull = ''null''"
| "printJson (JBool b) = (if b then ''true'' else ''false'')"
| "printJson (JNum n) = decimal n"
| "printJson (JStr s) = CHR 0x22 # s @ [CHR 0x22]"
| "printJson (JArr xs) = ''['' @ joinComma (map printJson xs) @ '']''"
| "printJson (JObj kvs) =
     ''{'' @ joinComma (map (\<lambda>kv. CHR 0x22 # fst kv @ [CHR 0x22] @ '':'' @ printJson (snd kv)) kvs)
     @ ''}''"

fun compareStrings :: "string \<Rightarrow> string \<Rightarrow> int" where
  "compareStrings [] [] = 0"
| "compareStrings [] (b # bs) = - 1"
| "compareStrings (a # as) [] = 1"
| "compareStrings (a # as) (b # bs) =
     (if (of_char a :: nat) < of_char b then - 1
      else if (of_char b :: nat) < of_char a then 1
      else compareStrings as bs)"

definition example_host :: "(string \<times> jsval) list \<Rightarrow> (spawn_call \<Rightarrow> string + spawn_result) \<Rightarrow> host" where
  "example_host documents run =
     \<lparr> JSON_parse = (\<lambda>text. case map_of documents text of
                                None \<Rightarrow> Inl ''SyntaxError: Unexpected token''
                              | Some v \<Rightarrow> Inr v),
       JSON_stringify = printJson,
       toNumber_string = (\<lambda>s. if s = [] then Some 0 else None),
       toString_number = decimal,
       localeCompare = compareStrings,
       path_resolve = pathJoin,
       toISOString = decimal,
       processEnv = [],
       which = (\<lambda>c. Some True),
       spawnSync = run \<rparr>"

text \<open>A process that exits with a status and a text on standard error.\<close>

definition exits :: "int \<Rightarrow> string \<Rightarrow> spawn_call \<Rightarrow> string + spawn_result" where
  "exits code err call =
     Inr \<lparr> status = Some code, signal = None, stdout = Some [], stderr = Some err \<rparr>"

text \<open>A process that prints its arguments, joined by commas, and exits with status 0.\<close>

definition echoes :: "spawn_call \<Rightarrow> string + spawn_result" where
  "echoes call =
     Inr \<lparr> status = Some 0, signal = None, stdout = Some (joinComma (args call)),
           stderr = Some [] \<rparr>"

definition example_readings :: readings where
  "example_readings =
     \<lparr> loopStamp = 1, startedAt = 2, worktreeStamp = 3, finishedAt = 4, moveStamp = 5,
       catchStamp = 6, runStamp = ''20260101-000000000Z'',
       finishedIso = ''2026-01-01T00:00:00.004Z'', triedIso = ''2026-01-01T00:00:00.005Z'',
       eventIso = ''2026-01-01T00:00:00.006Z'' \<rparr>"

definition example_context :: daemon_context where
  "example_context =
     \<lparr> ctx_config = [(''pollIntervalMs'', JNum 5000), (''defaultMaxAttempts'', JNum 2),
                     (''routingOrder'', JArr []), (''cleanupWorktreeOnSuccess'', JBool False),
                     (''cleanupWorktreeOnFailure'', JBool False)],
       ctx_agents = [plain_agent ''codex'' ''codex''],
       repoRoot = ''/repo'',
       homeDir = ''/repo/.autodelegate'' \<rparr>"

text \<open>A queue whose inbox holds one file, \<^verbatim>\<open>a.json\<close>, with the given content.\<close>

definition example_queue :: "string \<Rightarrow> state" where
  "example_queue content =
     \<lparr> inbox = [(''a.json'', content)], processing = [], completed = [], failed = [],
       runs = [], daemonLog = [], spawned = [] \<rparr>"

text \<open>A task at a given attempt count, with a given maximum.\<close>

definition example_task :: "int \<Rightarrow> int \<Rightarrow> jsobj" where
  "example_task attempt maxAttempts =
     [(''id'', JStr ''t1''), (''title'', JStr ''t''), (''prompt'', JStr ''echo hi''),
      (''maxAttempts'', JNum maxAttempts), (''attempt'', JNum attempt)]"


definition exited :: "int \<Rightarrow> string \<Rightarrow> spawn_result" where
  "exited code err = \<lparr> status = Some code, signal = None, stdout = Some [], stderr = Some err \<rparr>"

text \<open>
  Two agent directories, each with one file that defines the agent \<^verbatim>\<open>x\<close>, on a host
  where \<^verbatim>\<open>codex\<close> is the only command installed. The shared definition runs \<^verbatim>\<open>codex\<close>;
  the project's own definition is a parameter of the example.
\<close>

definition shared_definition :: jsobj where
  "shared_definition = [(''name'', JStr ''x''), (''command'', JStr ''codex'')]"

definition example_agent_dirs :: "string \<Rightarrow> dir option" where
  "example_agent_dirs =
     map_of [(''/shared/agents'', [(''x.agent.json'', ''{shared}'')]),
             (''/repo/.autodelegate/agents'', [(''x.agent.json'', ''{local}'')])]"

definition example_agent_host :: "jsobj \<Rightarrow> host" where
  "example_agent_host localDefinition =
     (example_host [(''{shared}'', JObj shared_definition), (''{local}'', JObj localDefinition)]
        (exits 0 []))
     \<lparr> which := (\<lambda>c. Some (c = JStr ''codex'')) \<rparr>"

text \<open>A definition of \<^verbatim>\<open>x\<close> whose command is not installed, one whose command is, and one
  that switches the agent off.\<close>

definition uninstalled_definition :: jsobj where
  "uninstalled_definition =
     [(''name'', JStr ''x''), (''command'', JStr ''claude''), (''promptMode'', JStr ''stdin'')]"

definition installed_definition :: jsobj where
  "installed_definition =
     [(''name'', JStr ''x''), (''command'', JStr ''codex''), (''promptMode'', JStr ''stdin'')]"

definition disabled_definition :: jsobj where
  "disabled_definition =
     [(''name'', JStr ''x''), (''command'', JStr ''codex''), (''enabled'', JBool False)]"

text \<open>
  One directory with the definitions of two agents, \<^verbatim>\<open>a\<close> running \<^verbatim>\<open>claude\<close> and \<^verbatim>\<open>b\<close>
  running \<^verbatim>\<open>codex\<close>, on a host that has both commands.
\<close>

definition example_pair_dirs :: "string \<Rightarrow> dir option" where
  "example_pair_dirs =
     map_of [(''/shared/agents'', [(''a.agent.json'', ''{a}''), (''b.agent.json'', ''{b}'')])]"

definition example_pair_host :: host where
  "example_pair_host =
     example_host [(''{a}'', JObj [(''name'', JStr ''a''), (''command'', JStr ''claude'')]),
                   (''{b}'', JObj [(''name'', JStr ''b''), (''command'', JStr ''codex'')])]
       (exits 0 [])"

section \<open>Properties of the numbers\<close>

declare ulp.simps [simp del]

lemma ulp_small: "m < 2 ^ 53 \<Longrightarrow> ulp m = 1"
  by (subst ulp.simps) simp

lemma ulp_large: "\<not> m < 2 ^ 53 \<Longrightarrow> ulp m = 2 * ulp (m div 2)"
  by (subst ulp.simps) simp
















lemma plusOne_sticks: "plusOne (Some (2 ^ 53)) = Some (2 ^ 53)"
  by (simp add: plusOne_def roundDouble_def nearest_def Let_def ulp_large ulp_small)


section \<open>Properties of the router\<close>

lemma first_of_append:
  "first_of (xs @ ys) = (case first_of xs of Some x \<Rightarrow> Some x | None \<Rightarrow> first_of ys)"
  by (cases xs) (simp_all add: first_of_def)

lemma find_first_of_filter: "find P xs = first_of (filter P xs)"
  by (induction xs) (simp_all add: first_of_def)

lemma firstRouted_first_of:
  "firstRouted names agents =
     first_of (concat (map (\<lambda>n. filter (\<lambda>a. strictEq (name a) n) agents) names))"
proof (induction names)
  case Nil
  show ?case by (simp add: first_of_def)
next
  case (Cons n ns)
  show ?case
    by (simp add: first_of_append find_first_of_filter [symmetric] Cons.IH
        split: option.splits)
qed

lemma routed_first_of:
  "(case map_of config ''routingOrder'' of
      Some (JArr names) \<Rightarrow> firstRouted names agents
    | _ \<Rightarrow> None) = first_of (routed_matches config agents)"
  by (simp add: routed_matches_def firstRouted_first_of first_of_def
      split: option.splits jsval.splits)

lemma guarded_first_of:
  "(if truthy v then find (\<lambda>a. strictEq (field a) (the v)) agents else None)
     = first_of (rule_matches field (guarded v) agents)"
  by (cases v) (simp_all add: rule_matches_def guarded_def find_first_of_filter first_of_def)

lemma pickAgent_eq_select_guarded:
  "pickAgent task agents config = select_guarded task agents config"
proof (cases agents)
  case Nil
  have no_routed: "routed_matches config [] = []"
    by (simp add: routed_matches_def split: option.splits jsval.splits)
  have no_match: "rule_matches field wanted [] = []" for field wanted
    by (simp add: rule_matches_def split: option.splits)
  show ?thesis
    by (simp add: Nil pickAgent_def select_guarded_def no_routed no_match first_of_def)
next
  case (Cons first rest)
  have last_rule: "first_of agents = Some first"
    by (simp add: Cons first_of_def)
  show ?thesis
    unfolding pickAgent_def select_guarded_def first_of_append
      guarded_first_of routed_first_of last_rule
    by (simp add: Cons split: option.splits)
qed

section \<open>Properties of the strings and the listings\<close>

lemma all_dropWhile: "(\<forall>x \<in> set (dropWhile P s). P x) = (\<forall>x \<in> set s. P x)"
  by (induction s) auto

lemma trim_empty_iff: "trim s = [] \<longleftrightarrow> (\<forall>c \<in> set s. isWhiteSpace c)"
  by (simp add: trim_def dropWhile_eq_Nil_conv all_dropWhile)








section \<open>Properties of the agent registry\<close>

lemma strictEq_eq: "strictEq a b \<Longrightarrow> a = b"
  by (cases a; cases b) simp_all

lemma normalise_fields:
  assumes "normalise h n c p = Inr a"
  shows "name a = n" and "command a = c" and "source a = p"
  using assms by (auto simp: normalise_def split: sum.splits)

lemma loadFile_eligible:
  "loadFile h content byName
   = (case eligible h content of None \<Rightarrow> byName | Some (n, a) \<Rightarrow> mapSet n a byName)"
  by (simp add: loadFile_def eligible_def Let_def split: sum.splits option.splits bool.splits)

lemma eligible_normalised:
  assumes "eligible h content = Some (n, a)"
  shows "\<exists>parsed c. readJson h content = Inr parsed \<and> parsed \<noteq> JNull
           \<and> map_of (props parsed) ''enabled'' \<noteq> Some (JBool False)
           \<and> map_of (props parsed) ''name'' = Some n \<and> truthy (Some n)
           \<and> map_of (props parsed) ''command'' = Some c \<and> truthy (Some c)
           \<and> which h c = Some True
           \<and> normalise h n c (props parsed) = Inr a"
proof -
  from assms obtain parsed where p: "readJson h content = Inr parsed"
    by (auto simp: eligible_def split: sum.splits)
  let ?p = "props parsed"
  from assms p have nn: "parsed \<noteq> JNull" "map_of ?p ''enabled'' \<noteq> Some (JBool False)"
    "truthy (map_of ?p ''name'')" "truthy (map_of ?p ''command'')"
    by (auto simp: eligible_def Let_def split: if_splits)
  from nn(3) obtain n' where n': "map_of ?p ''name'' = Some n'"
    by (cases "map_of ?p ''name''") simp_all
  from nn(4) obtain c where c: "map_of ?p ''command'' = Some c"
    by (cases "map_of ?p ''command''") simp_all
  from assms p nn n' c have "which h c = Some True" "n = n'" "normalise h n' c ?p = Inr a"
    by (auto simp: eligible_def Let_def split: option.splits bool.splits sum.splits)
  with p nn n' c show ?thesis by auto
qed

lemma eligible_name: "eligible h content = Some (n, a) \<Longrightarrow> name a = n"
  by (auto dest!: eligible_normalised dest: normalise_fields)

lemma eligible_truthy:
  assumes "eligible h content = Some (n, a)"
  shows "truthy (Some (name a))" and "truthy (Some (command a))"
  using eligible_normalised [OF assms] by (auto dest: normalise_fields)

text \<open>The entries of a registry under one key.\<close>

lemma mapSet_same:
  assumes "strictEq k k" and "length (filter (\<lambda>kv. fst kv = k) reg) \<le> 1"
  shows "filter (\<lambda>kv. fst kv = k) (mapSet k v reg) = [(k, v)]"
  using assms
proof (induction reg)
  case Nil
  then show ?case by simp
next
  case (Cons p ps)
  show ?case
  proof (cases "strictEq (fst p) k")
    case True
    then have same: "fst p = k" by (rule strictEq_eq)
    with Cons.prems(2) have "filter (\<lambda>kv. fst kv = k) ps = []"
      by simp
    with True same show ?thesis by simp
  next
    case False
    with Cons.prems(1) have "fst p \<noteq> k" by auto
    with False Cons show ?thesis by simp
  qed
qed

lemma mapSet_other:
  assumes "k \<noteq> k'"
  shows "filter (\<lambda>kv. fst kv = k') (mapSet k v reg) = filter (\<lambda>kv. fst kv = k') reg"
  using assms
proof (induction reg)
  case Nil
  then show ?case by simp
next
  case (Cons p ps)
  then show ?case by (auto dest: strictEq_eq)
qed

lemma loadFile_other:
  assumes "\<And>a. eligible h content \<noteq> Some (k, a)"
  shows "filter (\<lambda>kv. fst kv = k) (loadFile h content reg) = filter (\<lambda>kv. fst kv = k) reg"
proof (cases "eligible h content")
  case None
  then show ?thesis by (simp add: loadFile_eligible)
next
  case (Some na)
  obtain n a where na: "na = (n, a)" by (cases na)
  with Some assms have "n \<noteq> k" by auto
  with Some na show ?thesis by (simp add: loadFile_eligible mapSet_other)
qed

lemma loadFile_at_most_one:
  assumes "strictEq k k" and "length (filter (\<lambda>kv. fst kv = k) reg) \<le> 1"
  shows "length (filter (\<lambda>kv. fst kv = k) (loadFile h content reg)) \<le> 1"
proof (cases "eligible h content")
  case None
  with assms show ?thesis by (simp add: loadFile_eligible)
next
  case (Some na)
  obtain n a where na: "na = (n, a)" by (cases na)
  show ?thesis
  proof (cases "n = k")
    case True
    with Some na assms show ?thesis by (simp add: loadFile_eligible mapSet_same)
  next
    case False
    with Some na assms show ?thesis by (simp add: loadFile_eligible mapSet_other)
  qed
qed

lemma fold_at_most_one:
  assumes "strictEq k k" and "length (filter (\<lambda>kv. fst kv = k) reg) \<le> 1"
  shows "length (filter (\<lambda>kv. fst kv = k)
                   (foldl (\<lambda>byName content. loadFile h content byName) reg cs)) \<le> 1"
  using assms(2)
proof (induction cs arbitrary: reg)
  case Nil
  then show ?case by simp
next
  case (Cons c cs)
  have "length (filter (\<lambda>kv. fst kv = k) (loadFile h c reg)) \<le> 1"
    by (rule loadFile_at_most_one [OF assms(1) Cons.prems])
  from Cons.IH [OF this] show ?case
    by simp
qed

lemma fold_other:
  assumes "\<And>c a. c \<in> set cs \<Longrightarrow> eligible h c \<noteq> Some (k, a)"
  shows "filter (\<lambda>kv. fst kv = k) (foldl (\<lambda>byName content. loadFile h content byName) reg cs)
         = filter (\<lambda>kv. fst kv = k) reg"
  using assms
proof (induction cs arbitrary: reg)
  case Nil
  then show ?case by simp
next
  case (Cons c cs)
  have "filter (\<lambda>kv. fst kv = k) (loadFile h c reg) = filter (\<lambda>kv. fst kv = k) reg"
    by (rule loadFile_other) (use Cons.prems in auto)
  moreover have "filter (\<lambda>kv. fst kv = k)
        (foldl (\<lambda>byName content. loadFile h content byName) (loadFile h c reg) cs)
      = filter (\<lambda>kv. fst kv = k) (loadFile h c reg)"
    by (rule Cons.IH) (use Cons.prems in auto)
  ultimately show ?case by simp
qed

lemma fold_names:
  assumes "\<And>kv. kv \<in> set reg \<Longrightarrow> name (snd kv) = fst kv"
  shows "kv \<in> set (foldl (\<lambda>byName content. loadFile h content byName) reg cs)
         \<Longrightarrow> name (snd kv) = fst kv"
  using assms
proof (induction cs arbitrary: reg)
  case Nil
  then show ?case by simp
next
  case (Cons c cs)
  have step: "name (snd p) = fst p" if "p \<in> set (loadFile h c reg)" for p
  proof (cases "eligible h c")
    case None
    with that Cons.prems(2) show ?thesis by (simp add: loadFile_eligible)
  next
    case (Some na)
    obtain n a where na: "na = (n, a)" by (cases na)
    with Some have nm: "name a = n" by (auto dest: eligible_name)
    have "name (snd p) = fst p" if "p \<in> set (mapSet n a rs)"
      "\<And>q. q \<in> set rs \<Longrightarrow> name (snd q) = fst q" for rs
      using that
    proof (induction rs)
      case Nil
      with nm show ?case by simp
    next
      case (Cons q qs)
      then show ?case
        using nm by (auto dest: strictEq_eq split: if_splits)
    qed
    with that Some na Cons.prems(2) show ?thesis
      by (simp add: loadFile_eligible)
  qed
  from Cons.IH [of "loadFile h c reg"] Cons.prems(1) step show ?case
    by simp
qed

lemma mapSet_values: "kv \<in> set (mapSet k v reg) \<Longrightarrow> snd kv = v \<or> kv \<in> set reg"
  by (induction reg) (auto split: if_splits)

lemma fold_truthy:
  assumes "\<And>kv. kv \<in> set reg
             \<Longrightarrow> truthy (Some (name (snd kv))) \<and> truthy (Some (command (snd kv)))"
  shows "kv \<in> set (foldl (\<lambda>byName content. loadFile h content byName) reg cs)
         \<Longrightarrow> truthy (Some (name (snd kv))) \<and> truthy (Some (command (snd kv)))"
  using assms
proof (induction cs arbitrary: reg)
  case Nil
  then show ?case by simp
next
  case (Cons c cs)
  have step: "truthy (Some (name (snd p))) \<and> truthy (Some (command (snd p)))"
    if "p \<in> set (loadFile h c reg)" for p
  proof (cases "eligible h c")
    case None
    with that Cons.prems(2) show ?thesis by (simp add: loadFile_eligible)
  next
    case (Some na)
    obtain n a where na: "na = (n, a)" by (cases na)
    from that Some na have "p \<in> set (mapSet n a reg)"
      by (simp add: loadFile_eligible)
    then have "snd p = a \<or> p \<in> set reg" by (rule mapSet_values)
    then show ?thesis
    proof
      assume "snd p = a"
      with Some na eligible_truthy [of h c n a] show ?thesis by simp
    next
      assume "p \<in> set reg"
      then show ?thesis by (rule Cons.prems(2))
    qed
  qed
  from Cons.IH [of "loadFile h c reg"] Cons.prems(1) step show ?case
    by simp
qed

text \<open>Every agent of the registry has a truthy name and a truthy command.\<close>

lemma loadAgents_truthy:
  assumes "a \<in> set (loadAgents h fs agentsDirs)"
  shows "truthy (Some (name a)) \<and> truthy (Some (command a))"
proof -
  from assms obtain kv where
    "kv \<in> set (foldl (\<lambda>byName content. loadFile h content byName) []
                   (concat (map (dirFiles h fs) agentsDirs)))"
    and "a = snd kv"
    by (auto simp: loadAgents_def)
  then show ?thesis
    using fold_truthy [of "[]" kv h] by simp
qed

lemma registry_last_eligible_wins:
  assumes "eligible h content = Some (k, a)" and "strictEq k k"
    and "\<And>c b. c \<in> set after \<Longrightarrow> eligible h c \<noteq> Some (k, b)"
  shows "entriesFor k (map snd (foldl (\<lambda>byName content. loadFile h content byName) []
                                   (before @ content # after))) = [a]"
proof -
  let ?step = "\<lambda>byName content. loadFile h content byName"
  let ?reg1 = "foldl ?step [] before"
  let ?reg = "foldl ?step [] (before @ content # after)"
  have one: "length (filter (\<lambda>kv. fst kv = k) ?reg1) \<le> 1"
    by (rule fold_at_most_one [OF assms(2)]) simp
  have "filter (\<lambda>kv. fst kv = k) (loadFile h content ?reg1) = [(k, a)]"
    using assms(1,2) one by (simp add: loadFile_eligible mapSet_same)
  moreover have "filter (\<lambda>kv. fst kv = k) (foldl ?step (loadFile h content ?reg1) after)
                 = filter (\<lambda>kv. fst kv = k) (loadFile h content ?reg1)"
    by (rule fold_other) (use assms(3) in auto)
  ultimately have entries: "filter (\<lambda>kv. fst kv = k) ?reg = [(k, a)]"
    by simp
  have names: "name (snd kv) = fst kv" if "kv \<in> set ?reg" for kv
    using that by (rule fold_names [rotated]) simp
  have same: "strictEq x k \<longleftrightarrow> x = k" for x
    using assms(2) strictEq_eq [of x k] by auto
  have "entriesFor k (map snd ?reg) = map snd (filter (\<lambda>kv. strictEq (name (snd kv)) k) ?reg)"
    by (simp add: entriesFor_def filter_map comp_def)
  also have "filter (\<lambda>kv. strictEq (name (snd kv)) k) ?reg = filter (\<lambda>kv. fst kv = k) ?reg"
    by (rule filter_cong) (simp_all add: names same)
  finally have "entriesFor k (map snd ?reg) = map snd (filter (\<lambda>kv. fst kv = k) ?reg)" .
  then show ?thesis
    unfolding entries by simp
qed

lemma example_dirFiles:
  "dirFiles (example_agent_host d) example_agent_dirs ''/shared/agents'' = [''{shared}'']"
  "dirFiles (example_agent_host d) example_agent_dirs ''/repo/.autodelegate/agents'' = [''{local}'']"
  by (simp_all add: dirFiles_def example_agent_dirs_def listFiles_def endsWith_def sort_by_def)

subsection \<open>Claim C3\<close>

text \<open>
  What the registry holds under a name: the last definition read that is eligible under
  it, normalised, whatever the files read before it define. A name is a key of the
  registry when it is identical to itself (a string, a number, \<^verbatim>\<open>true\<close>).
\<close>

lemma loadAgents_last_eligible_definition:
  assumes dirs: "agentsDirs = earlier @ agentsDir # later"
    and files: "dirFiles h fs agentsDir = before @ content # after"
    and ok: "eligible h content = Some (n, a)"
    and key: "strictEq n n"
    and last: "\<And>c b. c \<in> set after \<union> set (concat (map (dirFiles h fs) later))
                 \<Longrightarrow> eligible h c \<noteq> Some (n, b)"
  shows "entriesFor n (loadAgents h fs agentsDirs) = [a]"
proof -
  let ?pre = "concat (map (dirFiles h fs) earlier) @ before"
  let ?post = "after @ concat (map (dirFiles h fs) later)"
  have order: "concat (map (dirFiles h fs) agentsDirs) = ?pre @ content # ?post"
    by (simp add: dirs files)
  have none: "eligible h c \<noteq> Some (n, b)" if "c \<in> set ?post" for c b
    using that last by auto
  show ?thesis
    unfolding loadAgents_def order
    by (rule registry_last_eligible_wins [OF ok key none]) simp_all
qed

lemma eligible_definedName: "eligible h content = Some (n, a) \<Longrightarrow> definedName h content = Some n"
  by (auto dest!: eligible_normalised simp: definedName_def)

text \<open>A project's own definition that is eligible does replace the shared one.\<close>

lemma loadAgents_local_override:
  "map source (entriesFor (JStr ''x'')
     (loadAgents (example_agent_host installed_definition) example_agent_dirs
        [''/shared/agents'', ''/repo/.autodelegate/agents'']))
   = [installed_definition]"
  by (simp add: example_dirFiles loadAgents_def)
    (simp add: loadFile_def readJson_def example_agent_host_def example_host_def
      shared_definition_def installed_definition_def normalise_def entriesFor_def)

text \<open>
  C3 does not hold of the code. \<open>loadAgents\<close> decides whether a definition is eligible
  before it looks at the registry, and a definition it skips never reaches
  \<^verbatim>\<open>byName.set\<close>. So when a file of a later directory defines the name of an eligible
  definition of an earlier directory and is itself skipped (its \<^verbatim>\<open>enabled\<close> is \<^verbatim>\<open>false\<close>,
  its \<^verbatim>\<open>command\<close> is missing or not installed, or its \<^verbatim>\<open>defaultArgs\<close> cannot be converted),
  and no other file read after the earlier one defines the name, the registry holds the
  earlier definition under the name, and not the later one.
\<close>

theorem loadAgents_skipped_definition_overrides_nothing:
  assumes dirs: "agentsDirs = earlier @ sharedDir # between @ localDir # later"
    and shared_files: "dirFiles h fs sharedDir = before @ shared # after"
    and local_files: "dirFiles h fs localDir = local_before @ local # local_after"
    and shared_parsed: "readJson h shared = Inr parsed"
    and shared_ok: "eligible h shared = Some (n, a)"
    and key: "strictEq n n"
    and same_name: "definedName h local = Some n"
    and skipped: "eligible h local = None"
    and others: "\<forall>c \<in> set after \<union> set (concat (map (dirFiles h fs) between))
                      \<union> set local_before \<union> set local_after
                      \<union> set (concat (map (dirFiles h fs) later)).
                   definedName h c \<noteq> Some n"
  shows "entriesFor n (loadAgents h fs agentsDirs) = [a] \<and> source a = props parsed"
proof -
  have dirs': "agentsDirs = earlier @ sharedDir # (between @ localDir # later)"
    by (simp add: dirs)
  have none: "eligible h c \<noteq> Some (n, b)"
    if "c \<in> set after \<union> set (concat (map (dirFiles h fs) (between @ localDir # later)))"
    for c b
  proof (cases "c = local")
    case True
    with skipped show ?thesis by simp
  next
    case False
    with that have "c \<in> set after \<union> set (concat (map (dirFiles h fs) between))
                      \<union> set local_before \<union> set local_after
                      \<union> set (concat (map (dirFiles h fs) later))"
      by (auto simp: local_files)
    with others have "definedName h c \<noteq> Some n" by blast
    then show ?thesis by (auto dest: eligible_definedName)
  qed
  have "entriesFor n (loadAgents h fs agentsDirs) = [a]"
    by (rule loadAgents_last_eligible_definition [OF dirs' shared_files shared_ok key none])
  moreover from eligible_normalised [OF shared_ok] shared_parsed have "source a = props parsed"
    by (auto dest: normalise_fields)
  ultimately show ?thesis by simp
qed

text \<open>
  So a project cannot switch a shared agent off with a definition of its own: with
  \<^verbatim>\<open>enabled: false\<close> in the project's definition of \<^verbatim>\<open>x\<close>, the registry still holds the
  shared definition of \<^verbatim>\<open>x\<close>.
\<close>

theorem loadAgents_skipped_definition_overrides_nothing_witness:
  "definedName (example_agent_host disabled_definition) ''{local}'' = Some (JStr ''x'')
   \<and> map source (entriesFor (JStr ''x'')
        (loadAgents (example_agent_host disabled_definition) example_agent_dirs
           [''/shared/agents'', ''/repo/.autodelegate/agents'']))
     = [shared_definition]
   \<and> shared_definition \<noteq> disabled_definition"
proof -
  let ?h = "example_agent_host disabled_definition"
  have dirs: "[''/shared/agents'', ''/repo/.autodelegate/agents'']
              = [] @ ''/shared/agents'' # [] @ ''/repo/.autodelegate/agents'' # []"
    by simp
  have shared_files: "dirFiles ?h example_agent_dirs ''/shared/agents'' = [] @ ''{shared}'' # []"
    by (simp add: example_dirFiles)
  have local_files: "dirFiles ?h example_agent_dirs ''/repo/.autodelegate/agents''
                     = [] @ ''{local}'' # []"
    by (simp add: example_dirFiles)
  have shared_parsed: "readJson ?h ''{shared}'' = Inr (JObj shared_definition)"
    by (simp add: readJson_def example_agent_host_def example_host_def)
  obtain a where a: "normalise ?h (JStr ''x'') (JStr ''codex'') shared_definition = Inr a"
    by (simp add: normalise_def shared_definition_def)
  have shared_ok: "eligible ?h ''{shared}'' = Some (JStr ''x'', a)"
    using a
    by (simp add: eligible_def readJson_def example_agent_host_def example_host_def
        shared_definition_def)
  have key: "strictEq (JStr ''x'') (JStr ''x'')"
    by simp
  have same_name: "definedName ?h ''{local}'' = Some (JStr ''x'')"
    by (simp add: definedName_def readJson_def example_agent_host_def example_host_def
        disabled_definition_def)
  have skipped: "eligible ?h ''{local}'' = None"
    by (simp add: eligible_def readJson_def example_agent_host_def example_host_def
        disabled_definition_def)
  have others: "\<forall>c \<in> set [] \<union> set (concat (map (dirFiles ?h example_agent_dirs) []))
                      \<union> set [] \<union> set []
                      \<union> set (concat (map (dirFiles ?h example_agent_dirs) [])).
                   definedName ?h c \<noteq> Some (JStr ''x'')"
    by simp
  have differ: "shared_definition \<noteq> disabled_definition"
    by (simp add: shared_definition_def disabled_definition_def)
  from loadAgents_skipped_definition_overrides_nothing
    [OF dirs shared_files local_files shared_parsed shared_ok key same_name skipped others]
  show ?thesis
    using same_name differ by simp
qed

text \<open>The same holds of a later definition whose command is not installed.\<close>

lemma loadAgents_uninstalled_override:
  "map source (loadAgents (example_agent_host uninstalled_definition) example_agent_dirs
                 [''/shared/agents'', ''/repo/.autodelegate/agents''])
   = [shared_definition]"
  by (simp add: example_dirFiles loadAgents_def)
    (simp add: loadFile_def readJson_def example_agent_host_def example_host_def
      shared_definition_def uninstalled_definition_def normalise_def)

subsection \<open>Claim C2\<close>

lemma pickAgent_None_iff: "pickAgent task agents config = None \<longleftrightarrow> agents = []"
  by (simp add: pickAgent_def split: list.splits option.splits)

text \<open>
  On agents whose names and commands are truthy, as every agent of \<open>loadAgents\<close> is
  (\<open>loadAgents_truthy\<close>), a falsy preference matches no agent, and the guard of rules 1
  and 2 changes nothing.
\<close>

lemma strictEq_truthy: "strictEq a v \<Longrightarrow> truthy (Some a) \<Longrightarrow> truthy (Some v)"
  by (cases a; cases v) simp_all

lemma rule_matches_guarded:
  assumes "\<And>a. a \<in> set agents \<Longrightarrow> truthy (Some (field a))"
  shows "rule_matches field (guarded v) agents = rule_matches field v agents"
proof (cases "truthy v")
  case True
  then show ?thesis by (simp add: guarded_def)
next
  case False
  have "filter (\<lambda>a. strictEq (field a) w) agents = []" if "v = Some w" for w
    using assms False that by (auto simp: filter_empty_conv dest: strictEq_truthy)
  with False show ?thesis
    by (simp add: guarded_def rule_matches_def split: option.splits)
qed

lemma pickAgent_eq_select_spec_on_registry:
  assumes "\<And>a. a \<in> set agents \<Longrightarrow> truthy (Some (name a)) \<and> truthy (Some (command a))"
  shows "pickAgent task agents config = select_spec task agents config"
  using assms
  by (simp add: pickAgent_eq_select_guarded select_guarded_def select_spec_def
      rule_matches_guarded)

text \<open>
  C2. \<open>pickAgent\<close> answers \<^verbatim>\<open>null\<close> exactly when there is no agent. On the agents it is
  called with, the registry \<open>loadAgents\<close> returns (lines 548-553), it answers the first
  candidate of the first rule that has one: (1) the agents whose name is \<^verbatim>\<open>task.agent\<close>,
  (2) the agents whose command is \<^verbatim>\<open>task.tool\<close>, (3) for each name of
  \<^verbatim>\<open>config.routingOrder\<close> in turn the agents of that name, (4) every agent; each in list
  order, as \<open>select_spec\<close> has them.
\<close>

theorem pickAgent_first_matching_rule:
  "(pickAgent task agents config = None \<longleftrightarrow> agents = [])
   \<and> pickAgent task (loadAgents h fs agentsDirs) config
       = select_spec task (loadAgents h fs agentsDirs) config"
proof -
  have "pickAgent task (loadAgents h fs agentsDirs) config
        = select_spec task (loadAgents h fs agentsDirs) config"
    by (rule pickAgent_eq_select_spec_on_registry) (rule loadAgents_truthy)
  with pickAgent_None_iff [of task agents config] show ?thesis
    by blast
qed

lemma example_pair_registry:
  "loadAgents example_pair_host example_pair_dirs [''/shared/agents'']
   = [\<lparr> name = JStr ''a'', command = JStr ''claude'', promptMode = Argument,
         defaultArgs = [], useWorktree = True,
         source = [(''name'', JStr ''a''), (''command'', JStr ''claude'')] \<rparr>,
      \<lparr> name = JStr ''b'', command = JStr ''codex'', promptMode = Argument,
         defaultArgs = [], useWorktree = True,
         source = [(''name'', JStr ''b''), (''command'', JStr ''codex'')] \<rparr>]"
proof -
  have files: "dirFiles example_pair_host example_pair_dirs ''/shared/agents'' = [''{a}'', ''{b}'']"
    by (simp add: dirFiles_def example_pair_dirs_def example_pair_host_def example_host_def
        listFiles_def endsWith_def sort_by_def)
  show ?thesis
    by (simp add: loadAgents_def files)
      (simp add: loadFile_def readJson_def example_pair_host_def example_host_def normalise_def)
qed

theorem pickAgent_first_matching_rule_witness:
  "pickAgent [(''tool'', JStr ''codex'')]
     (loadAgents example_pair_host example_pair_dirs [''/shared/agents'']) []
   = Some \<lparr> name = JStr ''b'', command = JStr ''codex'', promptMode = Argument,
              defaultArgs = [], useWorktree = True,
              source = [(''name'', JStr ''b''), (''command'', JStr ''codex'')] \<rparr>"
  using pickAgent_first_matching_rule
    [of "[(''tool'', JStr ''codex'')]" "[]" "[]" example_pair_host example_pair_dirs
        "[''/shared/agents'']"]
  by (simp add: example_pair_registry select_spec_def rule_matches_def routed_matches_def
      first_of_def)

text \<open>
  The guards of rules 1 and 2 (\<^verbatim>\<open>if (task.agent)\<close>, \<^verbatim>\<open>if (task.tool)\<close>) show only on a list
  that \<open>loadAgents\<close> never returns, one with an agent whose name is the empty string: for
  a task whose \<^verbatim>\<open>agent\<close> is the empty string the code skips rule 1 there.
\<close>

lemma pickAgent_guard_on_unnamed_agent:
  "pickAgent [(''agent'', JStr [])] [plain_agent ''a'' ''claude'', plain_agent [] ''codex''] []
     = Some (plain_agent ''a'' ''claude'')
   \<and> select_spec [(''agent'', JStr [])]
       [plain_agent ''a'' ''claude'', plain_agent [] ''codex''] []
     = Some (plain_agent [] ''codex'')"
  by (simp add: pickAgent_def select_spec_def rule_matches_def routed_matches_def
      first_of_def plain_agent_def)

section \<open>Properties of the execution engine\<close>

lemma mapString_strings: "mapString h (map JStr extra) = Inr extra"
  by (induction extra) (simp_all add: mapString_def)

text \<open>
  C8. \<open>runAgent\<close> converts the task's \<^verbatim>\<open>commandArgs\<close> with \<^verbatim>\<open>String\<close> (none when the field
  is not an array) and runs the agent's command on the argument vector made of the
  agent's \<^verbatim>\<open>defaultArgs\<close> followed by them. For an agent whose \<^verbatim>\<open>promptMode\<close> is \<^verbatim>\<open>stdin\<close>
  the prompt is the standard input and the vector ends there; for any other agent there
  is no standard input and the prompt is the one argument added last. No other
  subprocess is started: when the conversion of an element raises (an object with a
  \<^verbatim>\<open>toString\<close> property), \<open>runAgent\<close> raises that error and runs nothing.
\<close>

theorem runAgent_argument_vector:
  "runAgent h agent task prompt runCwd
   = (case mapString h (case map_of task ''commandArgs'' of
                          Some (JArr xs) \<Rightarrow> xs
                        | _ \<Rightarrow> []) of
        Inl error \<Rightarrow> Inl error
      | Inr extra \<Rightarrow>
          spawnSync h
            \<lparr> program = command agent,
              args = defaultArgs agent @ extra
                     @ (if promptMode agent = Stdin then [] else [prompt]),
              input = (if promptMode agent = Stdin then Some prompt else None),
              cwd = runCwd,
              env = Some (spread (spread (spread [] (Some (JObj (processEnv h))))
                                    (map_of (source agent) ''env''))
                            (map_of task ''env'')) \<rparr>)"
proof -
  have none: "mapString h [] = Inr []"
    by (simp add: mapString_def)
  show ?thesis
    by (simp add: runAgent_def runAgent_call_def commandArgs_def Let_def none
        split: option.splits jsval.splits sum.splits)
qed

theorem runAgent_argument_vector_witness:
  "runAgent (example_host [] echoes)
     ((plain_agent ''codex'' ''codex'') \<lparr> defaultArgs := [''exec''] \<rparr>)
     [(''prompt'', JStr ''echo hi''), (''commandArgs'', JArr [JStr ''--json'', JNum 2])]
     ''echo hi'' ''/repo''
   = Inr \<lparr> status = Some 0, signal = None, stdout = Some ''exec,--json,2,echo hi'',
           stderr = Some [] \<rparr>
   \<and> runAgent (example_host [] echoes)
       ((plain_agent ''codex'' ''codex'') \<lparr> defaultArgs := [''exec''], promptMode := Stdin \<rparr>)
       [(''prompt'', JStr ''echo hi''), (''commandArgs'', JArr [JStr ''--json'', JNum 2])]
       ''echo hi'' ''/repo''
     = Inr \<lparr> status = Some 0, signal = None, stdout = Some ''exec,--json,2'',
             stderr = Some [] \<rparr>"
proof -
  have two: "decimal 2 = ''2''"
    by code_simp
  show ?thesis
    using runAgent_argument_vector
      [of "example_host [] echoes"
          "(plain_agent ''codex'' ''codex'') \<lparr> defaultArgs := [''exec''] \<rparr>"
          "[(''prompt'', JStr ''echo hi''), (''commandArgs'', JArr [JStr ''--json'', JNum 2])]"
          "''echo hi''" "''/repo''"]
      runAgent_argument_vector
      [of "example_host [] echoes"
          "(plain_agent ''codex'' ''codex'')
             \<lparr> defaultArgs := [''exec''], promptMode := Stdin \<rparr>"
          "[(''prompt'', JStr ''echo hi''), (''commandArgs'', JArr [JStr ''--json'', JNum 2])]"
          "''echo hi''" "''/repo''"]
    by (simp add: plain_agent_def mapString_def numberString_def two example_host_def
        echoes_def)
qed

text \<open>An argument that cannot be converted: nothing is run.\<close>

lemma runAgent_unconvertible_argument:
  "runAgent (example_host [] echoes) (plain_agent ''codex'' ''codex'')
     [(''prompt'', JStr ''echo hi''),
      (''commandArgs'', JArr [JStr ''--json'', JObj [(''toString'', JNum 0)]])]
     ''echo hi'' ''/repo''
   = Inl ''TypeError: Cannot convert object to primitive value''"
  by (simp add: runAgent_def runAgent_call_def commandArgs_def mapString_def)

section \<open>Properties of the recovery\<close>





section \<open>Properties of the task lifecycle\<close>

lemma decimal_digit:
  "decimal 0 = ''0''" "decimal 1 = ''1''" "decimal 2 = ''2''" "decimal 3 = ''3''"
  "decimal 4 = ''4''" "decimal 5 = ''5''" "decimal 6 = ''6''"
  by code_simp+

lemma example_listing:
  "listFiles (example_host documents run) (Some (inbox (example_queue content))) ''.json''
   = [''a.json'']"
  by (simp add: listFiles_def example_queue_def endsWith_def sort_by_def)

lemma processOneTask_claims:
  assumes "listFiles h (Some (inbox st)) ''.json'' = fileName # others"
    and "ctx_agents ctx \<noteq> []"
    and "map_of (inbox st) fileName = Some content"
  shows "processOneTask h r ctx st
         = processOneTask_claimed h r ctx fileName
             (st\<lparr>inbox := AList.delete fileName (inbox st),
                 processing := AList.update fileName content (processing st)\<rparr>)"
  using assms by (simp add: processOneTask_def processOneTask_listed_def renameSync_def)

lemma moveFileToDir_claimed:
  assumes "map_of (processing st) fileName = Some content"
  shows "moveFileToDir ctx Processing fileName Failed prefix st
         = Inr (pathJoin (dirPath ctx ''failed'') (prefix @ ''-'' @ fileName),
                st\<lparr>processing := AList.delete fileName (processing st),
                    failed := AList.update (prefix @ ''-'' @ fileName) content (failed st)\<rparr>)"
    and "moveFileToDir ctx Processing fileName Inbox prefix st
         = Inr (pathJoin (dirPath ctx ''inbox'') (prefix @ ''-'' @ fileName),
                st\<lparr>processing := AList.delete fileName (processing st),
                    inbox := AList.update (prefix @ ''-'' @ fileName) content (inbox st)\<rparr>)"
    and "moveFileToDir ctx Processing fileName Completed prefix st
         = Inr (pathJoin (dirPath ctx ''completed'') (prefix @ ''-'' @ fileName),
                st\<lparr>processing := AList.delete fileName (processing st),
                    completed := AList.update (prefix @ ''-'' @ fileName) content (completed st)\<rparr>)"
  using assms by (simp_all add: moveFileToDir_def renameSync_def Let_def)

lemma createWorktree_created:
  assumes "worktreeBranch h r n t = Inr branch"
    and "spawnSync h (worktreeAdd ctx branch) = Inr added"
    and "status added = Some 0"
  shows "createWorktree h r ctx n t st
         = (Inr (branch, worktreePathOf ctx branch),
            st\<lparr>spawned := spawned st @ [worktreeAdd ctx branch]\<rparr>)"
  using assms by (simp add: createWorktree_def Let_def)

lemma try_reaches_settle:
  assumes wt: "if useWorktree agent
               then (case worktreeBranch h r (name agent) taskId of
                       Inl error \<Rightarrow> False
                     | Inr branch \<Rightarrow>
                         worktree = Some (branch, worktreePathOf ctx branch)
                         \<and> (case spawnSync h (worktreeAdd ctx branch) of
                               Inl error \<Rightarrow> False
                             | Inr added \<Rightarrow> status added = Some 0))
               else worktree = None"
    and cwd: "resolveRunCwd h (repoRoot ctx) (map_option snd worktree) (map_of task ''cwd'')
              = Inr runCwd"
    and run: "runAgent h agent task prompt runCwd = Inr result"
  shows "\<exists>st5. sameQueue st st5
          \<and> processOneTask_try h r ctx fileName task taskId prompt agent runName st
            = (case processOneTask_attempts h r ctx fileName task taskId agent
                      (pathJoin (dirPath ctx ''runs'') runName) worktree result st5 of
                 (answer, st6) \<Rightarrow> ((answer, worktree), st6))"
proof -
  obtain st1 where prepared: "(if useWorktree agent
               then (case createWorktree h r ctx (name agent) taskId st of
                       (Inl error, st1) \<Rightarrow> (Inl error, st1)
                     | (Inr created, st1) \<Rightarrow> (Inr (Some created), st1))
               else (Inr None, st)) = (Inr worktree, st1)"
    and q1: "sameQueue st st1"
  proof (cases "useWorktree agent")
    case True
    with wt obtain branch added where
      "worktreeBranch h r (name agent) taskId = Inr branch"
      "worktree = Some (branch, worktreePathOf ctx branch)"
      "spawnSync h (worktreeAdd ctx branch) = Inr added"
      "status added = Some 0"
      by (auto split: sum.splits)
    with createWorktree_created [OF this(1,3,4), of st] True that
      [of "st\<lparr>spawned := spawned st @ [worktreeAdd ctx branch]\<rparr>"]
    show ?thesis
      by (simp add: sameQueue_def)
  next
    case False
    with wt that [of st] show ?thesis by (simp add: sameQueue_def)
  qed
  define st5 where "st5 =
    writeRunFile runName ''summary.json''
      (writeJson_text h (JObj (summary h r taskId agent (pathJoin (dirPath ctx ''runs'') runName)
                                 worktree result)))
      (writeRunFile runName ''stderr.log'' (strOr (stderr result) [])
        (writeRunFile runName ''stdout.log'' (strOr (stdout result) [])
          (st1\<lparr>spawned := spawned st1
                       @ (case runAgent_call h agent task prompt runCwd of
                            Inl error \<Rightarrow> []
                          | Inr call \<Rightarrow> [call])\<rparr>)))"
  have q5: "sameQueue st st5"
    using q1 by (simp add: st5_def sameQueue_def writeRunFile_def)
  have "processOneTask_try h r ctx fileName task taskId prompt agent runName st
        = (case processOneTask_attempts h r ctx fileName task taskId agent
                  (pathJoin (dirPath ctx ''runs'') runName) worktree result st5 of
             (answer, st6) \<Rightarrow> ((answer, worktree), st6))"
    unfolding processOneTask_try_def prepared
    by (simp add: cwd run st5_def Let_def)
  with q5 show ?thesis by blast
qed

lemma moveFileToDir_gone:
  assumes "map_of (processing st) fileName = None"
  shows "moveFileToDir ctx Processing fileName target prefix st
         = Inl ''Error: ENOENT: no such file or directory, rename''"
  using assms by (simp add: moveFileToDir_def renameSync_def)

lemma cleanupIf_result:
  "\<exists>answer st'. cleanupIf h ctx key worktree st = (answer, st')
     \<and> sameQueue st st'
     \<and> (case answer of
           Inl error \<Rightarrow> cleanupRaises h ctx key worktree
         | Inr b \<Rightarrow> b \<and> \<not> cleanupRaises h ctx key worktree)"
  by (cases worktree)
    (auto simp: cleanupIf_def cleanupRaises_def cleanupWorktree_def sameQueue_def Let_def
      split: sum.splits)


lemma settle_retry:
  assumes held: "map_of (processing st) fileName = Some content"
    and nz: "status result \<noteq> Some 0"
    and nr: "numLess (plusOne attempt) maxAttempts"
  shows "\<exists>answer st'.
     processOneTask_settle h r ctx fileName task taskId agent runDir worktree result
       maxAttempts attempt st
       = (answer, st')
     \<and> (case answer of Inl error \<Rightarrow> cleanupRaises h ctx ''cleanupWorktreeOnFailure'' worktree
         | Inr b \<Rightarrow> b \<and> \<not> cleanupRaises h ctx ''cleanupWorktreeOnFailure'' worktree)
     \<and> inbox st' = AList.update ((''retry-'' @ decimal (moveStamp r)) @ ''-'' @ fileName)
                      (writeJson_text h (JObj (retried r (plusOne attempt) task result)))
                      (inbox st)
     \<and> processing st' = AList.delete fileName (processing st)
     \<and> completed st' = completed st
     \<and> failed st' = failed st
     \<and> daemonLog st' = daemonLog st @
           [[(''at'', JStr (eventIso r)), (''status'', JStr ''retrying''),
             (''taskId'', taskId),
             (''attempt'', numVal (plusOne attempt)),
             (''maxAttempts'', numVal maxAttempts),
             (''taskFile'', JStr (pathJoin (dirPath ctx ''inbox'')
                                   ((''retry-'' @ decimal (moveStamp r)) @ ''-'' @ fileName))),
             (''runDir'', JStr runDir), (''agent'', name agent)]]"
proof -
  let ?ev = "[(''at'', JStr (eventIso r)), (''status'', JStr ''retrying''),
             (''taskId'', taskId),
             (''attempt'', numVal (plusOne attempt)),
             (''maxAttempts'', numVal maxAttempts),
             (''taskFile'', JStr (pathJoin (dirPath ctx ''inbox'')
                                   ((''retry-'' @ decimal (moveStamp r)) @ ''-'' @ fileName))),
             (''runDir'', JStr runDir), (''agent'', name agent)]"
  let ?text = "writeJson_text h (JObj (retried r (plusOne attempt) task result))"
  let ?st0 = "st\<lparr>processing := AList.update fileName ?text (processing st)\<rparr>"
  have held0: "map_of (processing ?st0) fileName = Some ?text"
    by (simp add: update_conv')
  let ?st2 = "appendEvent ?ev
      (?st0\<lparr>processing := AList.delete fileName (processing ?st0),
           inbox := AList.update ((''retry-'' @ decimal (moveStamp r)) @ ''-'' @ fileName) ?text
                      (inbox ?st0)\<rparr>)"
  have eq: "processOneTask_settle h r ctx fileName task taskId agent runDir worktree result
          maxAttempts attempt st
        = cleanupIf h ctx ''cleanupWorktreeOnFailure'' worktree ?st2"
    unfolding processOneTask_settle_def Let_def moveFileToDir_claimed(2) [OF held0]
    using nz nr by simp
  from cleanupIf_result [of h ctx "''cleanupWorktreeOnFailure''" worktree ?st2]
  obtain answer st' where c: "cleanupIf h ctx ''cleanupWorktreeOnFailure'' worktree ?st2 = (answer, st')"
    and q: "sameQueue ?st2 st'"
    and a: "case answer of Inl error \<Rightarrow> cleanupRaises h ctx ''cleanupWorktreeOnFailure'' worktree
         | Inr b \<Rightarrow> b \<and> \<not> cleanupRaises h ctx ''cleanupWorktreeOnFailure'' worktree"
    by blast
  from q have "inbox st' = AList.update ((''retry-'' @ decimal (moveStamp r)) @ ''-'' @ fileName)
                      ?text (inbox st)"
    "processing st' = AList.delete fileName (processing st)"
    "completed st' = completed st" "failed st' = failed st"
    "daemonLog st' = daemonLog st @ [?ev]"
    by (simp_all add: sameQueue_def appendEvent_def delete_update_same)
  with eq c a show ?thesis by simp
qed

lemma processOneTask_after_agent:
  assumes ran: "agentRan h r ctx st fileName content task agent slug worktree result"
  shows "\<exists>st5. inbox st5 = AList.delete fileName (inbox st)
     \<and> processing st5 = AList.update fileName content (processing st)
     \<and> completed st5 = completed st \<and> failed st5 = failed st \<and> daemonLog st5 = daemonLog st
     \<and> processOneTask h r ctx st
       = (case processOneTask_attempts h r ctx fileName task (taskIdOf fileName task) agent
                 (pathJoin (dirPath ctx ''runs'') (runStamp r @ ''-'' @ slug))
                 worktree result st5 of
            (Inr answer, st6) \<Rightarrow> (Returned answer, st6)
          | (Inl error, st6) \<Rightarrow>
              (case moveFileToDir ctx Processing fileName Failed (decimal (catchStamp r)) st6 of
                 Inl raised \<Rightarrow> (Thrown raised, st6)
               | Inr (failedPath, st7) \<Rightarrow>
                   (Returned True,
                    appendEvent
                      (exceptionEvent r ctx (taskIdOf fileName task)
                         (runStamp r @ ''-'' @ slug)
                         agent worktree error failedPath) st7)))"
proof -
  let ?taskId = "taskIdOf fileName task"
  let ?runName = "runStamp r @ ''-'' @ slug"
  let ?st1 = "st\<lparr>inbox := AList.delete fileName (inbox st),
                  processing := AList.update fileName content (processing st)\<rparr>"
  from ran obtain others where listing: "listFiles h (Some (inbox st)) ''.json'' = fileName # others"
    by (auto simp: agentRan_def split: list.splits)
  from ran have content: "map_of (inbox st) fileName = Some content"
    and parsed: "readJson h content = Inr (JObj task)"
    and prompt: "trim (promptOf task) \<noteq> []"
    and pick: "pickAgent task (ctx_agents ctx) (ctx_config ctx) = Some agent"
    and slug: "slugify h (Some ?taskId) = Inr slug"
    by (simp_all add: agentRan_def)
  from ran have wt: "if useWorktree agent
               then (case worktreeBranch h r (name agent) ?taskId of
                       Inl error \<Rightarrow> False
                     | Inr branch \<Rightarrow>
                         worktree = Some (branch, worktreePathOf ctx branch)
                         \<and> (case spawnSync h (worktreeAdd ctx branch) of
                               Inl error \<Rightarrow> False
                             | Inr added \<Rightarrow> status added = Some 0))
               else worktree = None"
    by (simp add: agentRan_def)
  from ran obtain runCwd where
    cwd: "resolveRunCwd h (repoRoot ctx) (map_option snd worktree) (map_of task ''cwd'') = Inr runCwd"
    and run: "runAgent h agent task (promptOf task) runCwd = Inr result"
    by (auto simp: agentRan_def split: sum.splits)
  have agents: "ctx_agents ctx \<noteq> []"
    using pick pickAgent_None_iff [of task "ctx_agents ctx" "ctx_config ctx"] by auto
  let ?st2 = "writeRunFile ?runName ''prompt.txt'' (promptOf task @ [CHR 0x0A])
               (writeRunFile ?runName ''task.json'' (writeJson_text h (JObj task)) ?st1)"
  have q2: "sameQueue ?st1 ?st2"
    by (simp add: sameQueue_def writeRunFile_def)
  from try_reaches_settle [OF wt cwd run, where fileName = fileName and runName = ?runName
      and st = ?st2] obtain st5 where
    q5: "sameQueue ?st2 st5"
    and tried: "processOneTask_try h r ctx fileName task ?taskId (promptOf task) agent ?runName ?st2
       = (case processOneTask_attempts h r ctx fileName task ?taskId agent
                 (pathJoin (dirPath ctx ''runs'') ?runName) worktree result st5 of
            (answer, st6) \<Rightarrow> ((answer, worktree), st6))"
    by blast
  have dirs: "inbox st5 = AList.delete fileName (inbox st)"
    "processing st5 = AList.update fileName content (processing st)"
    "completed st5 = completed st" "failed st5 = failed st" "daemonLog st5 = daemonLog st"
    using q2 q5 by (simp_all add: sameQueue_def)
  have run_eq: "processOneTask_run h r ctx fileName task agent ?st1
       = (case processOneTask_attempts h r ctx fileName task ?taskId agent
                 (pathJoin (dirPath ctx ''runs'') ?runName) worktree result st5 of
            (Inr answer, st6) \<Rightarrow> (Returned answer, st6)
          | (Inl error, st6) \<Rightarrow>
              (case moveFileToDir ctx Processing fileName Failed (decimal (catchStamp r)) st6 of
                 Inl raised \<Rightarrow> (Thrown raised, st6)
               | Inr (failedPath, st7) \<Rightarrow>
                   (Returned True,
                    appendEvent
                      (exceptionEvent r ctx ?taskId ?runName agent worktree error failedPath)
                      st7)))"
  proof (cases "processOneTask_attempts h r ctx fileName task ?taskId agent
                 (pathJoin (dirPath ctx ''runs'') ?runName) worktree result st5")
    case (Pair answer st6)
    show ?thesis
      unfolding processOneTask_run_def Let_def slug sum.case tried Pair
      by (cases answer) simp_all
  qed
  have "processOneTask h r ctx st = processOneTask_run h r ctx fileName task agent ?st1"
    unfolding processOneTask_claims [OF listing agents content]
    by (simp add: processOneTask_claimed_def processOneTask_task_def update_conv' parsed
        prompt pick)
  then have "processOneTask h r ctx st
       = (case processOneTask_attempts h r ctx fileName task ?taskId agent
                 (pathJoin (dirPath ctx ''runs'') ?runName) worktree result st5 of
            (Inr answer, st6) \<Rightarrow> (Returned answer, st6)
          | (Inl error, st6) \<Rightarrow>
              (case moveFileToDir ctx Processing fileName Failed (decimal (catchStamp r)) st6 of
                 Inl raised \<Rightarrow> (Thrown raised, st6)
               | Inr (failedPath, st7) \<Rightarrow>
                   (Returned True,
                    appendEvent
                      (exceptionEvent r ctx ?taskId ?runName agent worktree error failedPath)
                      st7)))"
    by (simp only: run_eq)
  with dirs show ?thesis
    by (intro exI [of _ st5] conjI)
qed

lemma settled_outcome:
  assumes gone: "map_of (processing st6) fileName = None"
    and answer: "case answer of Inl error \<Rightarrow> raises | Inr b \<Rightarrow> b \<and> \<not> raises"
  shows "(case (answer, st6) of
            (Inr answer, st6) \<Rightarrow> (Returned answer, st6)
          | (Inl error, st6) \<Rightarrow>
              (case moveFileToDir ctx Processing fileName Failed prefix st6 of
                 Inl raised \<Rightarrow> (Thrown raised, st6)
               | Inr (failedPath, st7) \<Rightarrow> (Returned True, appendEvent (event error failedPath) st7)))
         = (if raises then Thrown ''Error: ENOENT: no such file or directory, rename''
            else Returned True, st6)"
  using answer by (cases answer) (simp_all add: moveFileToDir_gone [OF gone])



lemma attempts_read:
  assumes "maxAttempts_of h ctx task = Inr maxAttempts" and "attempt_of h task = Inr attempt"
  shows "processOneTask_attempts h r ctx fileName task taskId agent runDir worktree result st
         = processOneTask_settle h r ctx fileName task taskId agent runDir worktree result
             maxAttempts attempt st"
  using assms by (simp add: processOneTask_attempts_def)

text \<open>
  The state after a call in which the agent has run and failed, by the outcome of the
  comparison of line 449.
\<close>

lemma processOneTask_retry_state:
  assumes ran: "agentRan h r ctx st fileName content task agent slug worktree result"
    and nz: "status result \<noteq> Some 0"
    and mx: "maxAttempts_of h ctx task = Inr maxAttempts"
    and at: "attempt_of h task = Inr attempt"
    and nr: "numLess (plusOne attempt) maxAttempts"
  shows "fst (processOneTask h r ctx st)
           = (if cleanupRaises h ctx ''cleanupWorktreeOnFailure'' worktree
              then Thrown ''Error: ENOENT: no such file or directory, rename''
              else Returned True)
     \<and> inbox (snd (processOneTask h r ctx st))
           = AList.update (''retry-'' @ decimal (moveStamp r) @ ''-'' @ fileName)
               (writeJson_text h (JObj (retried r (plusOne attempt) task result)))
               (AList.delete fileName (inbox st))
     \<and> processing (snd (processOneTask h r ctx st)) = AList.delete fileName (processing st)
     \<and> completed (snd (processOneTask h r ctx st)) = completed st
     \<and> failed (snd (processOneTask h r ctx st)) = failed st
     \<and> daemonLog (snd (processOneTask h r ctx st))
           = daemonLog st @
             [[(''at'', JStr (eventIso r)), (''status'', JStr ''retrying''),
               (''taskId'', taskIdOf fileName task),
               (''attempt'', numVal (plusOne attempt)),
               (''maxAttempts'', numVal maxAttempts),
               (''taskFile'', JStr (pathJoin (dirPath ctx ''inbox'')
                                     ((''retry-'' @ decimal (moveStamp r)) @ ''-'' @ fileName))),
               (''runDir'', JStr (pathJoin (dirPath ctx ''runs'') (runStamp r @ ''-'' @ slug))),
               (''agent'', name agent)]]"
proof -
  let ?taskId = "taskIdOf fileName task"
  let ?runDir = "pathJoin (dirPath ctx ''runs'') (runStamp r @ ''-'' @ slug)"
  from processOneTask_after_agent [OF ran] obtain st5 where
    dirs: "inbox st5 = AList.delete fileName (inbox st)"
      "processing st5 = AList.update fileName content (processing st)"
      "completed st5 = completed st" "failed st5 = failed st" "daemonLog st5 = daemonLog st"
    and eq: "processOneTask h r ctx st
       = (case processOneTask_attempts h r ctx fileName task ?taskId agent ?runDir
                 worktree result st5 of
            (Inr answer, st6) \<Rightarrow> (Returned answer, st6)
          | (Inl error, st6) \<Rightarrow>
              (case moveFileToDir ctx Processing fileName Failed (decimal (catchStamp r)) st6 of
                 Inl raised \<Rightarrow> (Thrown raised, st6)
               | Inr (failedPath, st7) \<Rightarrow>
                   (Returned True,
                    appendEvent
                      (exceptionEvent r ctx ?taskId (runStamp r @ ''-'' @ slug)
                         agent worktree error failedPath) st7)))"
    by blast
  have held: "map_of (processing st5) fileName = Some content"
    by (simp add: dirs update_conv')
  from settle_retry [OF held nz nr, of h r ctx task ?taskId agent ?runDir worktree]
  obtain answer st6 where
    settle: "processOneTask_settle h r ctx fileName task ?taskId agent ?runDir worktree result
               maxAttempts attempt st5
             = (answer, st6)"
    and answer: "case answer of
                   Inl error \<Rightarrow> cleanupRaises h ctx ''cleanupWorktreeOnFailure'' worktree
                 | Inr b \<Rightarrow> b \<and> \<not> cleanupRaises h ctx ''cleanupWorktreeOnFailure'' worktree"
    and after: "inbox st6 = AList.update ((''retry-'' @ decimal (moveStamp r)) @ ''-'' @ fileName)
                      (writeJson_text h (JObj (retried r (plusOne attempt) task result)))
                      (inbox st5)"
      "processing st6 = AList.delete fileName (processing st5)"
      "completed st6 = completed st5" "failed st6 = failed st5"
      "daemonLog st6 = daemonLog st5 @
           [[(''at'', JStr (eventIso r)), (''status'', JStr ''retrying''),
             (''taskId'', ?taskId),
             (''attempt'', numVal (plusOne attempt)),
             (''maxAttempts'', numVal maxAttempts),
             (''taskFile'', JStr (pathJoin (dirPath ctx ''inbox'')
                                   ((''retry-'' @ decimal (moveStamp r)) @ ''-'' @ fileName))),
             (''runDir'', JStr ?runDir), (''agent'', name agent)]]"
    by blast
  have gone: "map_of (processing st6) fileName = None"
    by (simp add: after dirs delete_update_same delete_conv)
  have "processOneTask h r ctx st
        = (if cleanupRaises h ctx ''cleanupWorktreeOnFailure'' worktree
           then Thrown ''Error: ENOENT: no such file or directory, rename''
           else Returned True, st6)"
    unfolding eq attempts_read [OF mx at] settle by (rule settled_outcome [OF gone answer])
  then show ?thesis
    by (simp add: after dirs delete_update_same)
qed


text \<open>The example task: its slug, and the run of the agent on it.\<close>

lemma example_slug: "slugify h (Some (JStr ''t1'')) = Inr ''t1''"
proof -
  have "take 60 (stripHyphens (hyphenate False (map toLowerCase ''t1''))) = ''t1''"
    by code_simp
  then show ?thesis
    by (simp add: slugify_def)
qed

lemma example_agentRan:
  "agentRan (example_host [(''{task}'', JObj (example_task a m))] (exits code err))
     example_readings example_context (example_queue ''{task}'') ''a.json'' ''{task}''
     (example_task a m) (plain_agent ''codex'' ''codex'') ''t1'' None (exited code err)"
proof -
  have id: "taskIdOf ''a.json'' (example_task a m) = JStr ''t1''"
    by (simp add: taskIdOf_def example_task_def)
  have none: "mapString h [] = Inr []" for h
    by (simp add: mapString_def)
  show ?thesis
    unfolding agentRan_def example_listing id example_slug
    by (simp add: example_queue_def example_host_def readJson_def
        example_task_def promptOf_def trim_empty_iff isWhiteSpace_def example_context_def
        pickAgent_def plain_agent_def resolveRunCwd_def runAgent_def runAgent_call_def
        commandArgs_def exits_def exited_def)
qed



subsection \<open>Claim C5\<close>



subsection \<open>Claim C10\<close>




subsection \<open>Claim C7\<close>

text \<open>
  C7 does not hold of the code. When the first pending file is claimed and parses to
  \<^verbatim>\<open>null\<close>, the read of \<^verbatim>\<open>task.id\<close> raises outside both \<^verbatim>\<open>try\<close> blocks: \<open>processOneTask\<close>
  raises, the file stays in \<^verbatim>\<open>processing\<close>, and no event is logged.
\<close>

theorem processOneTask_null_payload:
  assumes "listFiles h (Some (inbox st)) ''.json'' = fileName # others"
    and "ctx_agents ctx \<noteq> []"
    and "map_of (inbox st) fileName = Some content"
    and "JSON_parse h content = Inr JNull"
  shows "processOneTask h r ctx st
         = (Thrown ''TypeError: Cannot read properties of null'',
            st\<lparr>inbox := AList.delete fileName (inbox st),
                processing := AList.update fileName content (processing st)\<rparr>)"
  unfolding processOneTask_claims [OF assms(1-3)]
  by (simp add: processOneTask_claimed_def update_conv' readJson_def assms(4))

theorem processOneTask_null_payload_witness:
  "processOneTask (example_host [(''null'', JNull)] (exits 0 [])) example_readings
     example_context (example_queue ''null'')
   = (Thrown ''TypeError: Cannot read properties of null'',
      \<lparr> inbox = [], processing = [(''a.json'', ''null'')], completed = [], failed = [],
        runs = [], daemonLog = [], spawned = [] \<rparr>)"
proof -
  have agents: "ctx_agents example_context \<noteq> []"
    by (simp add: example_context_def)
  have content: "map_of (inbox (example_queue ''null'')) ''a.json'' = Some ''null''"
    by (simp add: example_queue_def)
  have parsed: "JSON_parse (example_host [(''null'', JNull)] (exits 0 [])) ''null'' = Inr JNull"
    by (simp add: example_host_def)
  show ?thesis
    unfolding processOneTask_null_payload
      [OF example_listing agents content parsed, of example_readings]
    by (simp add: example_queue_def)
qed

text \<open>
  The name of the run directory is built outside the \<^verbatim>\<open>try\<close> block too (line 393): a
  task whose \<^verbatim>\<open>id\<close> cannot be converted to a string (an object with a \<^verbatim>\<open>toString\<close>
  property) makes \<open>processOneTask\<close> raise in the same way.
\<close>

lemma processOneTask_unprintable_id:
  assumes listing: "listFiles h (Some (inbox st)) ''.json'' = fileName # others"
    and content: "map_of (inbox st) fileName = Some content"
    and parsed: "readJson h content = Inr (JObj task)"
    and prompt: "trim (promptOf task) \<noteq> []"
    and pick: "pickAgent task (ctx_agents ctx) (ctx_config ctx) = Some agent"
    and id: "slugify h (Some (taskIdOf fileName task)) = Inl error"
  shows "processOneTask h r ctx st
         = (Thrown error,
            st\<lparr>inbox := AList.delete fileName (inbox st),
                processing := AList.update fileName content (processing st)\<rparr>)"
proof -
  have agents: "ctx_agents ctx \<noteq> []"
    using pick pickAgent_None_iff [of task "ctx_agents ctx" "ctx_config ctx"] by auto
  show ?thesis
    unfolding processOneTask_claims [OF listing agents content]
    by (simp add: processOneTask_claimed_def processOneTask_task_def processOneTask_run_def
        update_conv' parsed prompt pick id)
qed

text \<open>
  What the \<^verbatim>\<open>try\<close> block does catch: when \<^verbatim>\<open>git worktree add\<close> does not exit with status
  0, the error \<open>createWorktree\<close> raises is caught, the file goes to \<^verbatim>\<open>failed\<close> with its
  content, the event has reason \<^verbatim>\<open>runtime_exception\<close> and carries the error text, and the
  call returns \<^verbatim>\<open>true\<close>.
\<close>

lemma processOneTask_worktree_failure_caught:
  assumes listing: "listFiles h (Some (inbox st)) ''.json'' = fileName # others"
    and content: "map_of (inbox st) fileName = Some content"
    and parsed: "readJson h content = Inr (JObj task)"
    and prompt: "trim (promptOf task) \<noteq> []"
    and pick: "pickAgent task (ctx_agents ctx) (ctx_config ctx) = Some agent"
    and slug: "slugify h (Some (taskIdOf fileName task)) = Inr slug"
    and uses: "useWorktree agent"
    and branch: "worktreeBranch h r (name agent) (taskIdOf fileName task) = Inr branch"
    and git: "spawnSync h (worktreeAdd ctx branch) = Inr added"
    and refused: "status added \<noteq> Some 0"
  shows "fst (processOneTask h r ctx st) = Returned True
     \<and> failed (snd (processOneTask h r ctx st))
           = AList.update (decimal (catchStamp r) @ ''-'' @ fileName) content (failed st)
     \<and> inbox (snd (processOneTask h r ctx st)) = AList.delete fileName (inbox st)
     \<and> processing (snd (processOneTask h r ctx st)) = AList.delete fileName (processing st)
     \<and> daemonLog (snd (processOneTask h r ctx st))
           = daemonLog st @
             [exceptionEvent r ctx (taskIdOf fileName task) (runStamp r @ ''-'' @ slug) agent None
                (''Error: git worktree add failed: ''
                 @ trim (strOr (stderr added) (strOr (stdout added) [])))
                (pathJoin (dirPath ctx ''failed'') (decimal (catchStamp r) @ ''-'' @ fileName))]"
proof -
  let ?taskId = "taskIdOf fileName task"
  let ?runName = "runStamp r @ ''-'' @ slug"
  let ?st1 = "st\<lparr>inbox := AList.delete fileName (inbox st),
                  processing := AList.update fileName content (processing st)\<rparr>"
  let ?st2 = "writeRunFile ?runName ''prompt.txt'' (promptOf task @ [CHR 0x0A])
               (writeRunFile ?runName ''task.json'' (writeJson_text h (JObj task)) ?st1)"
  let ?st3 = "?st2\<lparr>spawned := spawned ?st2 @ [worktreeAdd ctx branch]\<rparr>"
  let ?error = "''Error: git worktree add failed: ''
                 @ trim (strOr (stderr added) (strOr (stdout added) []))"
  have agents: "ctx_agents ctx \<noteq> []"
    using pick pickAgent_None_iff [of task "ctx_agents ctx" "ctx_config ctx"] by auto
  have tried: "processOneTask_try h r ctx fileName task ?taskId (promptOf task) agent ?runName ?st2
               = ((Inl ?error, None), ?st3)"
    using uses branch git refused
    by (simp add: processOneTask_try_def createWorktree_def Let_def)
  have held: "map_of (processing ?st3) fileName = Some content"
    by (simp add: writeRunFile_def update_conv')
  have "processOneTask h r ctx st = processOneTask_run h r ctx fileName task agent ?st1"
    unfolding processOneTask_claims [OF listing agents content]
    by (simp add: processOneTask_claimed_def processOneTask_task_def update_conv' parsed
        prompt pick)
  also have "\<dots> = (Returned True,
        appendEvent
          (exceptionEvent r ctx ?taskId ?runName agent None ?error
             (pathJoin (dirPath ctx ''failed'') (decimal (catchStamp r) @ ''-'' @ fileName)))
          (?st3\<lparr>processing := AList.delete fileName (processing ?st3),
                failed := AList.update (decimal (catchStamp r) @ ''-'' @ fileName) content
                            (failed ?st3)\<rparr>))"
    unfolding processOneTask_run_def Let_def slug sum.case tried prod.case
      moveFileToDir_claimed(1) [OF held]
    by simp
  finally show ?thesis
    by (simp add: appendEvent_def writeRunFile_def delete_update_same)
qed

text \<open>
  So is the error \<^verbatim>\<open>Number\<close> raises on a \<^verbatim>\<open>maxAttempts\<close> or an \<^verbatim>\<open>attempt\<close> that cannot be
  converted (lines 428-429), whatever the status the agent ended with.
\<close>

lemma processOneTask_unconvertible_number_caught:
  assumes ran: "agentRan h r ctx st fileName content task agent slug worktree result"
    and bad: "maxAttempts_of h ctx task = Inl error
              \<or> (\<exists>maxAttempts. maxAttempts_of h ctx task = Inr maxAttempts
                                \<and> attempt_of h task = Inl error)"
  shows "fst (processOneTask h r ctx st) = Returned True
     \<and> failed (snd (processOneTask h r ctx st))
           = AList.update (decimal (catchStamp r) @ ''-'' @ fileName) content (failed st)
     \<and> inbox (snd (processOneTask h r ctx st)) = AList.delete fileName (inbox st)
     \<and> processing (snd (processOneTask h r ctx st)) = AList.delete fileName (processing st)
     \<and> daemonLog (snd (processOneTask h r ctx st))
           = daemonLog st @
             [exceptionEvent r ctx (taskIdOf fileName task) (runStamp r @ ''-'' @ slug) agent
                worktree error
                (pathJoin (dirPath ctx ''failed'') (decimal (catchStamp r) @ ''-'' @ fileName))]"
proof -
  let ?taskId = "taskIdOf fileName task"
  let ?runDir = "pathJoin (dirPath ctx ''runs'') (runStamp r @ ''-'' @ slug)"
  from processOneTask_after_agent [OF ran] obtain st5 where
    dirs: "inbox st5 = AList.delete fileName (inbox st)"
      "processing st5 = AList.update fileName content (processing st)"
      "completed st5 = completed st" "failed st5 = failed st" "daemonLog st5 = daemonLog st"
    and eq: "processOneTask h r ctx st
       = (case processOneTask_attempts h r ctx fileName task ?taskId agent ?runDir
                 worktree result st5 of
            (Inr answer, st6) \<Rightarrow> (Returned answer, st6)
          | (Inl error, st6) \<Rightarrow>
              (case moveFileToDir ctx Processing fileName Failed (decimal (catchStamp r)) st6 of
                 Inl raised \<Rightarrow> (Thrown raised, st6)
               | Inr (failedPath, st7) \<Rightarrow>
                   (Returned True,
                    appendEvent
                      (exceptionEvent r ctx ?taskId (runStamp r @ ''-'' @ slug)
                         agent worktree error failedPath) st7)))"
    by blast
  have raised: "processOneTask_attempts h r ctx fileName task ?taskId agent ?runDir
                  worktree result st5 = (Inl error, st5)"
    using bad by (auto simp: processOneTask_attempts_def)
  have held: "map_of (processing st5) fileName = Some content"
    by (simp add: dirs update_conv')
  show ?thesis
    unfolding eq raised prod.case sum.case moveFileToDir_claimed(1) [OF held]
    by (simp add: appendEvent_def dirs delete_update_same)
qed

subsection \<open>Claim C9: what the code does when the claim is lost\<close>

text \<open>
  When the file listed first is no longer in the inbox at the time of the rename (another
  process has taken it), the call returns \<^verbatim>\<open>true\<close> at once and touches nothing.
\<close>

lemma processOneTask_lost_claim:
  assumes "map_of (inbox st) fileName = None"
  shows "processOneTask_listed h r ctx (fileName # others) st = (Returned True, st)"
  using assms by (simp add: processOneTask_listed_def renameSync_def)

text \<open>Once the rename of a claim has succeeded, the same rename fails.\<close>

lemma claim_only_once:
  assumes "renameSync Inbox fileName Processing fileName st = Inr st1"
  shows "renameSync Inbox fileName Processing fileName st1
         = Inl ''Error: ENOENT: no such file or directory, rename''"
proof -
  from assms have "inbox st1 = AList.delete fileName (inbox st)"
    by (auto simp: renameSync_def split: option.splits)
  then have "map_of (inbox st1) fileName = None"
    by (simp add: delete_conv)
  then show ?thesis
    by (simp add: renameSync_def)
qed

subsection \<open>Claim C4\<close>



subsection \<open>Claim C1\<close>




text \<open>
  The bound on the count is needed: a task at attempt \<open>2\<^sup>5\<^sup>3\<close> is put back with the same
  count, the nearest double to \<open>2\<^sup>5\<^sup>3 + 1\<close>.
\<close>

lemma processOneTask_attempt_beyond_exact:
  "inbox (snd (processOneTask
          (example_host [(''{task}'', JObj (example_task (2 ^ 53) (2 ^ 53 + 4)))] (exits 1 ''boom''))
          example_readings example_context (example_queue ''{task}'')))
     = [(''retry-5-a.json'',
         writeJson_text
           (example_host [(''{task}'', JObj (example_task (2 ^ 53) (2 ^ 53 + 4)))] (exits 1 ''boom''))
           (JObj [(''id'', JStr ''t1''), (''title'', JStr ''t''), (''prompt'', JStr ''echo hi''),
                  (''maxAttempts'', JNum (2 ^ 53 + 4)), (''attempt'', JNum (2 ^ 53)),
                  (''lastError'', JStr ''boom''),
                  (''lastTriedAt'', JStr ''2026-01-01T00:00:00.005Z'')]))]"
proof -
  let ?task = "example_task (2 ^ 53) (2 ^ 53 + 4)"
  let ?h = "example_host [(''{task}'', JObj ?task)] (exits 1 ''boom'')"
  have nz: "status (exited 1 ''boom'') \<noteq> Some 0"
    by (simp add: exited_def)
  have at: "attempt_of ?h ?task = Inr (Some (2 ^ 53))"
    by (simp add: attempt_of_def example_task_def)
  have mx: "maxAttempts_of ?h example_context ?task = Inr (Some (2 ^ 53 + 4))"
    by (simp add: maxAttempts_of_def example_task_def)
  have nr: "numLess (plusOne (Some (2 ^ 53))) (Some (2 ^ 53 + 4))"
    unfolding plusOne_sticks by simp
  have written: "retried example_readings (Some (2 ^ 53)) ?task (exited 1 ''boom'')
      = [(''id'', JStr ''t1''), (''title'', JStr ''t''), (''prompt'', JStr ''echo hi''),
         (''maxAttempts'', JNum (2 ^ 53 + 4)), (''attempt'', JNum (2 ^ 53)),
         (''lastError'', JStr ''boom''),
         (''lastTriedAt'', JStr ''2026-01-01T00:00:00.005Z'')]"
    by (simp add: retried_def example_task_def numVal_def exited_def example_readings_def)
  have stamp: "decimal (moveStamp example_readings) = ''5''"
    by (simp add: example_readings_def decimal_digit)
  from processOneTask_retry_state [OF example_agentRan nz mx at nr]
  show ?thesis
    unfolding plusOne_sticks written
    by (simp add: stamp example_queue_def)
qed

end
